theory Spec2Isabelle
  imports Main "HOL-Library.AList"
begin

section \<open>Python values, errors and effects\<close>

text \<open>
  The values that occur in a row and in a parsed JSON payload.  A Python \<open>str\<close> is a
  \<open>string\<close>, one \<open>char\<close> per character of the text; a Python \<open>float\<close> is kept
  opaque (the type parameter \<open>'f\<close>), the code never computes with one.  A \<open>dict\<close> with
  string keys is an association list in insertion order.
\<close>

datatype 'f pyval =
    PNone
  | PBool bool
  | PInt int
  | PFloat 'f
  | PStr string
  | PList "'f pyval list"
  | PDict "(string \<times> 'f pyval) list"

datatype py_error =
    KeyError
  | TypeError
  | ValueError
  | IndexError
  | JSONDecodeError
  | RequestException
  | OverflowError

type_synonym 'f row = "(string \<times> 'f pyval) list"

datatype level = INFO | WARNING

text \<open>
  What the program does to the outside world, in the order it does it: a call of a
  logger, a GET of the session (URL and query parameters), a call of \<open>time.sleep\<close>.
\<close>

datatype 'f event =
    Log level string
  | HttpGet string "(string \<times> 'f pyval) list"
  | Sleep "'f pyval"

text \<open>
  The libraries the program calls and that are not part of it: the HTTP session of
  \<open>requests\<close> (an oracle over a world \<open>'w\<close>; it may raise), \<open>time.sleep\<close>,
  \<open>json.loads\<close>, \<open>repr\<close>, and \<open>int\<close> and truth of the values kept opaque.
\<close>

record ('w, 'f) runtime =
  session_get :: "'w \<Rightarrow> string \<Rightarrow> (string \<times> 'f pyval) list \<Rightarrow> (py_error + string) \<times> 'w"
  time_sleep :: "'w \<Rightarrow> 'f pyval \<Rightarrow> (py_error + unit) \<times> 'w"
  json_loads :: "string \<Rightarrow> py_error + 'f pyval"
  py_repr :: "'f pyval \<Rightarrow> string"
  int_of_str :: "string \<Rightarrow> py_error + int"
  int_of_float :: "'f \<Rightarrow> py_error + int"
  float_truthy :: "'f \<Rightarrow> bool"

subsection \<open>Built-in operations\<close>

text \<open>\<open>d.get(k, default)\<close>, \<open>k in d\<close>, \<open>d[k] = v\<close> (a present key keeps its place, a new
  key goes last) and \<open>d.keys()\<close>.\<close>

definition dict_get :: "(string \<times> 'v) list \<Rightarrow> string \<Rightarrow> 'v \<Rightarrow> 'v" where
  "dict_get d k dflt = (case map_of d k of None \<Rightarrow> dflt | Some v \<Rightarrow> v)"

definition dict_contains :: "(string \<times> 'v) list \<Rightarrow> string \<Rightarrow> bool" where
  "dict_contains d k = (map_of d k \<noteq> None)"

definition dict_set :: "(string \<times> 'v) list \<Rightarrow> string \<Rightarrow> 'v \<Rightarrow> (string \<times> 'v) list" where
  "dict_set d k v = AList.update k v d"

definition dict_keys :: "(string \<times> 'v) list \<Rightarrow> string list" where
  "dict_keys d = map fst d"

text \<open>\<open>str(v)\<close>, as an f-string field formats a value: a string is itself, every other
  value is its \<open>repr\<close>.\<close>

definition py_str :: "('w, 'f) runtime \<Rightarrow> 'f pyval \<Rightarrow> string" where
  "py_str rt v = (case v of PStr s \<Rightarrow> s | _ \<Rightarrow> py_repr rt v)"

text \<open>The truth value of \<open>if v:\<close>.\<close>

definition py_truthy :: "('w, 'f) runtime \<Rightarrow> 'f pyval \<Rightarrow> bool" where
  "py_truthy rt v =
     (case v of
        PNone \<Rightarrow> False
      | PBool b \<Rightarrow> b
      | PInt i \<Rightarrow> i \<noteq> 0
      | PFloat f \<Rightarrow> float_truthy rt f
      | PStr s \<Rightarrow> s \<noteq> []
      | PList xs \<Rightarrow> xs \<noteq> []
      | PDict d \<Rightarrow> d \<noteq> [])"

text \<open>\<open>v[k]\<close> for a string \<open>k\<close>: only a dict accepts it.\<close>

definition py_getitem :: "'f pyval \<Rightarrow> string \<Rightarrow> py_error + 'f pyval" where
  "py_getitem v k =
     (case v of
        PDict d \<Rightarrow> (case map_of d k of None \<Rightarrow> Inl KeyError | Some u \<Rightarrow> Inr u)
      | _ \<Rightarrow> Inl TypeError)"

text \<open>\<open>v[0]\<close>: the first element of a list, the first character of a string; a dict with
  string keys has no key \<open>0\<close>.\<close>

definition py_getitem0 :: "'f pyval \<Rightarrow> py_error + 'f pyval" where
  "py_getitem0 v =
     (case v of
        PList xs \<Rightarrow> (case xs of [] \<Rightarrow> Inl IndexError | u # _ \<Rightarrow> Inr u)
      | PStr s \<Rightarrow> (case s of [] \<Rightarrow> Inl IndexError | c # _ \<Rightarrow> Inr (PStr [c]))
      | PDict d \<Rightarrow> Inl KeyError
      | _ \<Rightarrow> Inl TypeError)"

text \<open>\<open>int(v)\<close>.\<close>

definition py_int :: "('w, 'f) runtime \<Rightarrow> 'f pyval \<Rightarrow> py_error + int" where
  "py_int rt v =
     (case v of
        PInt i \<Rightarrow> Inr i
      | PBool b \<Rightarrow> Inr (if b then 1 else 0)
      | PFloat f \<Rightarrow> int_of_float rt f
      | PStr s \<Rightarrow> int_of_str rt s
      | _ \<Rightarrow> Inl TypeError)"

text \<open>\<open>s.startswith(p)\<close>, \<open>s.index(c)\<close> (the first position of \<open>c\<close>, \<open>None\<close> where
  Python raises ValueError) and the slice \<open>s[a:b]\<close> with Python's treatment of negative
  and out-of-range bounds.\<close>

definition startswith :: "string \<Rightarrow> string \<Rightarrow> bool" where
  "startswith s p = (take (length p) s = p)"

fun str_index :: "string \<Rightarrow> char \<Rightarrow> nat option" where
  "str_index [] c = None"
| "str_index (a # s) c =
     (if a = c then Some 0
      else (case str_index s c of None \<Rightarrow> None | Some i \<Rightarrow> Some (Suc i)))"

definition slice_bound :: "nat \<Rightarrow> int \<Rightarrow> nat" where
  "slice_bound n i = (if i < 0 then nat (max 0 (int n + i)) else min n (nat i))"

definition py_slice :: "'a list \<Rightarrow> int \<Rightarrow> int \<Rightarrow> 'a list" where
  "py_slice s a b = drop (slice_bound (length s) a) (take (slice_bound (length s) b) s)"

section \<open>austin\_city\_api.py\<close>

datatype 'f Location = Location (loc_x: "'f pyval") (loc_y: "'f pyval")

datatype 'f Extent =
  Extent (ext_xmin: "'f pyval") (ext_ymin: "'f pyval") (ext_xmax: "'f pyval") (ext_ymax: "'f pyval")

datatype 'f GeocodedAddress =
  GeocodedAddress (ga_address: "'f pyval") (ga_location: "'f Location") (ga_score: "'f pyval")
    (ga_extent: "'f Extent")

text \<open>\<open>Location(**v)\<close> and \<open>Extent(**v)\<close>: \<open>v\<close> must be a mapping whose keys are exactly
  the fields of the dataclass; the values are not checked.\<close>

definition Location_kwargs :: "'f pyval \<Rightarrow> py_error + 'f Location" where
  "Location_kwargs v =
     (case v of
        PDict d \<Rightarrow>
          (case (map_of d ''x'', map_of d ''y'') of
             (Some a, Some b) \<Rightarrow>
               (if list_all (\<lambda>k. k = ''x'' \<or> k = ''y'') (dict_keys d)
                then Inr (Location a b) else Inl TypeError)
           | _ \<Rightarrow> Inl TypeError)
      | _ \<Rightarrow> Inl TypeError)"

definition Extent_kwargs :: "'f pyval \<Rightarrow> py_error + 'f Extent" where
  "Extent_kwargs v =
     (case v of
        PDict d \<Rightarrow>
          (case (map_of d ''xmin'', map_of d ''ymin'', map_of d ''xmax'', map_of d ''ymax'') of
             (Some a, Some b, Some c, Some e) \<Rightarrow>
               (if list_all (\<lambda>k. k = ''xmin'' \<or> k = ''ymin'' \<or> k = ''xmax'' \<or> k = ''ymax'')
                     (dict_keys d)
                then Inr (Extent a b c e) else Inl TypeError)
           | _ \<Rightarrow> Inl TypeError)
      | _ \<Rightarrow> Inl TypeError)"

text \<open>\<open>AustinDataService.__init__\<close>: the session visits the landing page.\<close>

definition government_url :: string where
  "government_url = ''https://www.austintexas.gov/government''"

definition AustinDataService_init ::
  "('w, 'f) runtime \<Rightarrow> 'w \<Rightarrow> (py_error + unit) \<times> 'f event list \<times> 'w" where
  "AustinDataService_init rt w =
     (case session_get rt w government_url [] of
        (Inl e, w1) \<Rightarrow> (Inl e, [HttpGet government_url []], w1)
      | (Inr _, w1) \<Rightarrow> (Inr (), [HttpGet government_url []], w1))"

subsection \<open>geocode\_address\<close>

definition geocode_url :: string where
  "geocode_url =
     ''https://maps.austintexas.gov/arcgis/rest/services/Geocode/COA_Locator/GeocodeServer/findAddressCandidates''"

definition geocode_params :: "string \<Rightarrow> (string \<times> 'f pyval) list" where
  "geocode_params address =
     [(''outFields'', PStr ''''),
      (''maxLocations'', PInt 1),
      (''outSR'', PStr ''''),
      (''searchExtent'', PStr ''''),
      (''f'', PStr ''pjson''),
      (''SingleLine'', PStr address),
      (''callback'', PStr ''callback''),
      (''js'', PInt 1)]"

text \<open>The warning of line 71.\<close>

definition callback_warning :: "string \<Rightarrow> string" where
  "callback_warning text =
     ''Received JSONP response with callback name '' @ py_slice text 0 10 @
     ''.. which is not expected.''"

text \<open>Lines 78 to 84: the result built from the first candidate, field by field in the
  order of the keyword arguments.\<close>

definition candidate_address :: "'f pyval \<Rightarrow> py_error + 'f GeocodedAddress" where
  "candidate_address candidate =
     (case py_getitem candidate ''address'' of Inl e \<Rightarrow> Inl e | Inr a \<Rightarrow>
      (case py_getitem candidate ''location'' of Inl e \<Rightarrow> Inl e | Inr lv \<Rightarrow>
      (case Location_kwargs lv of Inl e \<Rightarrow> Inl e | Inr l \<Rightarrow>
      (case py_getitem candidate ''score'' of Inl e \<Rightarrow> Inl e | Inr s \<Rightarrow>
      (case py_getitem candidate ''extent'' of Inl e \<Rightarrow> Inl e | Inr xv \<Rightarrow>
      (case Extent_kwargs xv of Inl e \<Rightarrow> Inl e | Inr x \<Rightarrow>
         Inr (GeocodedAddress a l s x)))))))"

text \<open>Lines 77 to 87, on the parsed payload: the result and the events logged.\<close>

definition geocode_payload ::
  "('w, 'f) runtime \<Rightarrow> string \<Rightarrow> 'f pyval \<Rightarrow>
     (py_error + 'f GeocodedAddress option) \<times> 'f event list" where
  "geocode_payload rt address data =
     (case py_getitem data ''candidates'' of
        Inl e \<Rightarrow> (Inl e, [])
      | Inr cands \<Rightarrow>
          (if py_truthy rt cands then
             (case py_getitem0 cands of
                Inl e \<Rightarrow> (Inl e, [])
              | Inr candidate \<Rightarrow>
                  (case candidate_address candidate of
                     Inl e \<Rightarrow> (Inl e, [])
                   | Inr g \<Rightarrow> (Inr (Some g), [])))
           else (Inr None, [Log INFO (''No geocoded address found for '' @ address)])))"

definition geocode_address ::
  "('w, 'f) runtime \<Rightarrow> 'w \<Rightarrow> string \<Rightarrow>
     (py_error + 'f GeocodedAddress option) \<times> 'f event list \<times> 'w" where
  "geocode_address rt w address =
     (case session_get rt w geocode_url (geocode_params address) of
        (Inl e, w1) \<Rightarrow> (Inl e, [HttpGet geocode_url (geocode_params address)], w1)
      | (Inr text, w1) \<Rightarrow>
          (let evs = HttpGet geocode_url (geocode_params address) #
                 (if \<not> startswith text ''callback('' then [Log WARNING (callback_warning text)]
                  else [])
           in case str_index text CHR ''('' of
                None \<Rightarrow> (Inl ValueError, evs, w1)
              | Some i \<Rightarrow>
                  (case json_loads rt (py_slice text (int i + 1) (- 2)) of
                     Inl e \<Rightarrow> (Inl e, evs, w1)
                   | Inr data \<Rightarrow>
                       (case geocode_payload rt address data of
                          (r, evs') \<Rightarrow> (r, evs @ evs', w1)))))"

subsection \<open>get\_council\_district\<close>

definition district_url :: string where
  "district_url =
     ''https://maps.austintexas.gov/gis/rest/Shared/CouncilDistrictsFill/MapServer/0/query''"

definition district_params :: "('w, 'f) runtime \<Rightarrow> 'f Location \<Rightarrow> (string \<times> 'f pyval) list" where
  "district_params rt location =
     [(''geometryType'', PStr ''esriGeometryPoint''),
      (''spatialRel'', PStr ''esriSpatialRelIntersects''),
      (''outFields'', PStr ''COUNCIL_DISTRICT''),
      (''returnGeometry'', PStr ''false''),
      (''f'', PStr ''pjson''),
      (''geometry'', PStr (py_str rt (loc_x location) @ '','' @ py_str rt (loc_y location)))]"

text \<open>Lines 102 to 105, on the parsed payload.\<close>

definition district_payload :: "('w, 'f) runtime \<Rightarrow> 'f pyval \<Rightarrow> py_error + int option" where
  "district_payload rt data =
     (case py_getitem data ''features'' of
        Inl e \<Rightarrow> Inl e
      | Inr features \<Rightarrow>
          (if py_truthy rt features then
             (case py_getitem0 features of Inl e \<Rightarrow> Inl e | Inr feature \<Rightarrow>
             (case py_getitem feature ''attributes'' of Inl e \<Rightarrow> Inl e | Inr attrs \<Rightarrow>
             (case py_getitem attrs ''COUNCIL_DISTRICT'' of Inl e \<Rightarrow> Inl e | Inr district \<Rightarrow>
             (case py_int rt district of Inl e \<Rightarrow> Inl e | Inr i \<Rightarrow> Inr (Some i)))))
           else Inr None))"

definition get_council_district ::
  "('w, 'f) runtime \<Rightarrow> 'w \<Rightarrow> 'f Location \<Rightarrow> (py_error + int option) \<times> 'f event list \<times> 'w" where
  "get_council_district rt w location =
     (case session_get rt w district_url (district_params rt location) of
        (Inl e, w1) \<Rightarrow> (Inl e, [HttpGet district_url (district_params rt location)], w1)
      | (Inr text, w1) \<Rightarrow>
          (case json_loads rt text of
             Inl e \<Rightarrow> (Inl e, [HttpGet district_url (district_params rt location)], w1)
           | Inr data \<Rightarrow>
               (district_payload rt data,
                [HttpGet district_url (district_params rt location)], w1)))"

section \<open>augment\_data.py\<close>

definition assemble_address :: "('w, 'f) runtime \<Rightarrow> 'f row \<Rightarrow> string" where
  "assemble_address rt row =
     py_str rt (dict_get row ''address1'' (PStr '''')) @ '' '' @
     py_str rt (dict_get row ''address2'' (PStr '''')) @ '', '' @
     py_str rt (dict_get row ''city'' (PStr '''')) @ '','' @ '' '' @
     py_str rt (dict_get row ''state'' (PStr '''')) @ '', '' @
     py_str rt (dict_get row ''zip'' (PStr '''')) @ '', '' @
     py_str rt (dict_get row ''country'' (PStr ''''))"

text \<open>The log line that closes \<open>add_city_council_district\<close> (line 88).\<close>

definition district_log :: "('w, 'f) runtime \<Rightarrow> 'f row \<Rightarrow> 'f event" where
  "district_log rt row =
     Log INFO (''  City Council District: '' @
       py_str rt (dict_get row ''city_council_district'' PNone))"

text \<open>
  The function mutates the row and returns nothing: the model returns how the call
  ended, the row as the call leaves it (also when it raises), the events and the world.
\<close>

definition add_city_council_district ::
  "('w, 'f) runtime \<Rightarrow> 'w \<Rightarrow> 'f row \<Rightarrow> (py_error + unit) \<times> 'f row \<times> 'f event list \<times> 'w" where
  "add_city_council_district rt w row =
     (if dict_contains row ''city_council_district'' then (Inr (), row, [], w)
      else
        (case geocode_address rt w (assemble_address rt row) of
           (Inl e, evs, w1) \<Rightarrow> (Inl e, row, evs, w1)
         | (Inr (Some geocoded_address), evs, w1) \<Rightarrow>
             (let row1 = dict_set row ''geocoded_address'' (ga_address geocoded_address);
                  evs1 = evs @ [Log INFO (''Requesting council district for '' @
                                   py_str rt (ga_address geocoded_address))]
              in case get_council_district rt w1 (ga_location geocoded_address) of
                   (Inl e, evs2, w2) \<Rightarrow> (Inl e, row1, evs1 @ evs2, w2)
                 | (Inr district, evs2, w2) \<Rightarrow>
                     (let row2 = dict_set row1 ''city_council_district''
                                   (case district of Some d \<Rightarrow> PInt d | None \<Rightarrow> PStr ''Unknown'')
                      in (Inr (), row2, evs1 @ evs2 @ [district_log rt row2], w2)))
         | (Inr None, evs, w1) \<Rightarrow>
             (let row1 = dict_set row ''geocoded_address'' (PStr '''');
                  row2 = dict_set row1 ''city_council_district'' (PStr '''')
              in (Inr (), row2, evs @ [district_log rt row2], w1))))"

subsection \<open>main\<close>

text \<open>
  The command line, parsed.  \<open>--interval\<close> has \<open>type=float\<close> and \<open>default=30\<close>: the
  default is the integer 30 as written, a given value is a float.
\<close>

record 'f args =
  args_verbose :: bool
  args_input :: string
  args_output :: string
  args_interval :: "'f pyval"

definition interval_arg :: "'f option \<Rightarrow> 'f pyval" where
  "interval_arg given = (case given of None \<Rightarrow> PInt 30 | Some f \<Rightarrow> PFloat f)"

text \<open>The log line that opens the processing of a row (lines 58 to 60).\<close>

definition processing_log :: "('w, 'f) runtime \<Rightarrow> 'f row \<Rightarrow> 'f event" where
  "processing_log rt row =
     Log INFO (''Processing row: name: '' @ py_str rt (dict_get row ''first_name'' PNone) @
       '' '' @ py_str rt (dict_get row ''last_name'' PNone) @
       '' address: '' @ assemble_address rt row)"

text \<open>
  The loop of lines 57 to 62 over the rows read: it returns the rows as the loop leaves
  them, or the exception that ended it.
\<close>

fun main_loop ::
  "('w, 'f) runtime \<Rightarrow> 'f pyval \<Rightarrow> 'w \<Rightarrow> 'f row list \<Rightarrow>
     (py_error + 'f row list) \<times> 'f event list \<times> 'w" where
  "main_loop rt iv w [] = (Inr [], [], w)"
| "main_loop rt iv w (row # rest) =
     (case add_city_council_district rt w row of
        (Inl e, row1, evs, w1) \<Rightarrow> (Inl e, processing_log rt row # evs, w1)
      | (Inr _, row1, evs, w1) \<Rightarrow>
          (case time_sleep rt w1 iv of
             (Inl e, w2) \<Rightarrow> (Inl e, processing_log rt row # evs @ [Sleep iv], w2)
           | (Inr _, w2) \<Rightarrow>
               (case main_loop rt iv w2 rest of
                  (Inl e, evs', w3) \<Rightarrow>
                    (Inl e, processing_log rt row # evs @ [Sleep iv] @ evs', w3)
                | (Inr rest', evs', w3) \<Rightarrow>
                    (Inr (row1 # rest'), processing_log rt row # evs @ [Sleep iv] @ evs', w3))))"

text \<open>
  \<open>csv.DictWriter\<close> with its defaults: a row with a key that is no field name raises
  ValueError, a field the row lacks is written as the empty string.  The cells are kept
  as values, before the writer turns them into text.
\<close>

definition dict_to_list :: "string list \<Rightarrow> 'f row \<Rightarrow> py_error + 'f pyval list" where
  "dict_to_list fieldnames rowdict =
     (if list_ex (\<lambda>k. k \<notin> set fieldnames) (dict_keys rowdict) then Inl ValueError
      else Inr (map (\<lambda>k. dict_get rowdict k (PStr '''')) fieldnames))"

fun writerows :: "string list \<Rightarrow> 'f row list \<Rightarrow> py_error + 'f pyval list list" where
  "writerows fieldnames [] = Inr []"
| "writerows fieldnames (r # rs) =
     (case dict_to_list fieldnames r of
        Inl e \<Rightarrow> Inl e
      | Inr cells \<Rightarrow>
          (case writerows fieldnames rs of Inl e \<Rightarrow> Inl e | Inr out \<Rightarrow> Inr (cells # out)))"

text \<open>Lines 64 to 68: the header is the key list of the first row.\<close>

definition write_output :: "'f row list \<Rightarrow> py_error + string list \<times> 'f pyval list list" where
  "write_output data =
     (case data of
        [] \<Rightarrow> Inl IndexError
      | row0 # _ \<Rightarrow>
          (case writerows (dict_keys row0) data of
             Inl e \<Rightarrow> Inl e
           | Inr out \<Rightarrow> Inr (dict_keys row0, out)))"

text \<open>\<open>main\<close>, from the rows that \<open>read_csv\<close> returned: what is written (header and
  rows of cells), or the exception that ended the run, with the events and the world.\<close>

definition main ::
  "('w, 'f) runtime \<Rightarrow> 'w \<Rightarrow> 'f args \<Rightarrow> 'f row list \<Rightarrow>
     (py_error + string list \<times> 'f pyval list list) \<times> 'f event list \<times> 'w" where
  "main rt w args data =
     (case AustinDataService_init rt w of
        (Inl e, evs1, w1) \<Rightarrow> (Inl e, Log INFO (''Data loaded from '' @ args_input args) # evs1, w1)
      | (Inr _, evs1, w1) \<Rightarrow>
          (case main_loop rt (args_interval args) w1 data of
             (Inl e, evs2, w2) \<Rightarrow>
               (Inl e, Log INFO (''Data loaded from '' @ args_input args) # evs1 @ evs2, w2)
           | (Inr data', evs2, w2) \<Rightarrow>
               (case write_output data' of
                  Inl e \<Rightarrow>
                    (Inl e, Log INFO (''Data loaded from '' @ args_input args) # evs1 @ evs2, w2)
                | Inr out \<Rightarrow>
                    (Inr out,
                     Log INFO (''Data loaded from '' @ args_input args) # evs1 @ evs2 @
                       [Log INFO (''Augmented data written to '' @ args_output args)], w2))))"

section \<open>A canned runtime\<close>

text \<open>
  A runtime to evaluate the program on: the geocoder answers every address with the
  JSONP text \<open>callback(<geo_json>);\<close>, the district service answers with
  \<open>district_json\<close>, \<open>json.loads\<close> knows these two texts.  The world is a clock in
  seconds: a request takes one second, a sleep of \<open>n\<close> seconds takes \<open>n\<close>, and a sleep
  of a negative length raises ValueError.
\<close>

definition canned_runtime ::
  "string \<Rightarrow> unit pyval \<Rightarrow> string \<Rightarrow> unit pyval \<Rightarrow> (nat, unit) runtime" where
  "canned_runtime geo_json geo_value district_json district_value =
     \<lparr> session_get = (\<lambda>w url params.
          (if url = geocode_url then Inr (''callback('' @ geo_json @ '');'')
           else if url = district_url then Inr district_json
           else Inr '''', Suc w)),
       time_sleep = (\<lambda>w secs.
          (case secs of
             PInt n \<Rightarrow> (if n < 0 then (Inl ValueError, w) else (Inr (), w + nat n))
           | _ \<Rightarrow> (Inr (), w))),
       json_loads = (\<lambda>s. if s = geo_json then Inr geo_value
                          else if s = district_json then Inr district_value
                          else Inl JSONDecodeError),
       py_repr = (\<lambda>v. case v of PNone \<Rightarrow> ''None'' | _ \<Rightarrow> ''...''),
       int_of_str = (\<lambda>s. Inl ValueError),
       int_of_float = (\<lambda>f. Inl ValueError),
       float_truthy = (\<lambda>f. True) \<rparr>"

definition no_candidates :: "unit pyval" where
  "no_candidates = PDict [(''candidates'', PList [])]"

definition one_candidate :: "unit pyval" where
  "one_candidate =
     PDict [(''candidates'', PList [PDict
       [(''address'', PStr ''301 W 2ND ST''),
        (''location'', PDict [(''x'', PInt 3112000), (''y'', PInt 10070000)]),
        (''score'', PInt 100),
        (''extent'', PDict [(''xmin'', PInt 3111900), (''ymin'', PInt 10069900),
                           (''xmax'', PInt 3112100), (''ymax'', PInt 10070100)])]])]"

text \<open>A district payload with one feature per district of the list.\<close>

definition features_of :: "int list \<Rightarrow> unit pyval" where
  "features_of ds =
     PDict [(''features'',
       PList (map (\<lambda>d. PDict [(''attributes'', PDict [(''COUNCIL_DISTRICT'', PInt d)])]) ds))]"

section \<open>Reading the events of a run\<close>

text \<open>
  An event list without a sleep, and the events of one full turn of the loop for a row:
  the line that announces the row first, the sleep of the interval last, no sleep in
  between.
\<close>

definition sleep_free :: "'f event list \<Rightarrow> bool" where
  "sleep_free evs = list_all (\<lambda>e. case e of Sleep d \<Rightarrow> False | _ \<Rightarrow> True) evs"

definition row_step :: "('w, 'f) runtime \<Rightarrow> 'f pyval \<Rightarrow> 'f row \<Rightarrow> 'f event list \<Rightarrow> bool" where
  "row_step rt iv row evs =
     (2 \<le> length evs \<and> hd evs = processing_log rt row \<and> last evs = Sleep iv \<and>
      sleep_free (butlast (tl evs)))"

section \<open>Properties\<close>

subsection \<open>Dictionaries and the shape of an augmented row\<close>

lemma dict_contains_keys: "dict_contains d k \<longleftrightarrow> k \<in> set (dict_keys d)"
  by (simp add: dict_contains_def dict_keys_def map_of_eq_None_iff)

lemma map_of_dict_set: "map_of (dict_set d k v) = (map_of d)(k \<mapsto> v)"
  by (simp add: dict_set_def update_conv')

lemma dict_keys_dict_set:
  "dict_keys (dict_set d k v) = (if k \<in> set (dict_keys d) then dict_keys d else dict_keys d @ [k])"
  by (simp add: dict_set_def dict_keys_def update_keys)

text \<open>However a call ends, the row it leaves is the row itself, the row with
  \<open>geocoded_address\<close> set, or the row with both columns set.\<close>

lemma add_cases:
  assumes "add_city_council_district rt w row = (r, row', evs, w')"
  shows "(dict_contains row ''city_council_district'' \<and> r = Inr () \<and> row' = row \<and> evs = [] \<and> w' = w)
       \<or> (\<not> dict_contains row ''city_council_district'' \<and>
            ((\<exists>e. r = Inl e \<and> row' = row)
           \<or> (\<exists>e a. r = Inl e \<and> row' = dict_set row ''geocoded_address'' a)
           \<or> (\<exists>a d. r = Inr () \<and>
                 row' = dict_set (dict_set row ''geocoded_address'' a) ''city_council_district'' d)))"
  using assms
  by (auto simp: add_city_council_district_def Let_def
      split: if_splits prod.splits sum.splits option.splits)

subsection \<open>The skip guard\<close>

text \<open>
  C1.  A row that already has a non-empty \<open>city_council_district\<close> value comes back from
  \<open>add_city_council_district\<close> exactly as it went in: the call returns normally, the row
  is the same association list (no key added, no value changed), nothing is logged or
  requested and the world is untouched.
\<close>

theorem skip_nonempty_district_unchanged:
  assumes "map_of row ''city_council_district'' = Some v" and "v \<noteq> PStr ''''"
  shows "add_city_council_district rt w row = (Inr (), row, [], w)"
  using assms by (simp add: add_city_council_district_def dict_contains_def)

theorem skip_nonempty_district_unchanged_witness:
  "add_city_council_district (canned_runtime ''{}'' no_candidates ''{}'' (features_of [])) 0
     [(''address1'', PStr ''301 W 2nd St''), (''city_council_district'', PStr ''9'')]
   = (Inr (), [(''address1'', PStr ''301 W 2nd St''), (''city_council_district'', PStr ''9'')], [], 0)"
  using skip_nonempty_district_unchanged
    [of "[(''address1'', PStr ''301 W 2nd St''), (''city_council_district'', PStr ''9'')]"
        "PStr ''9''" "canned_runtime ''{}'' no_candidates ''{}'' (features_of [])" 0]
  by simp

text \<open>
  C10.  The guard tests that the key is there, not that its value is non-empty: a row
  whose \<open>city_council_district\<close> is the empty string is skipped as well.  The call
  returns the row as it is, makes no request (so the row is not geocoded again), and the
  row has a \<open>geocoded_address\<close> key afterwards only if it had one before.
\<close>

theorem skip_guard_tests_key_presence:
  assumes "map_of row ''city_council_district'' = Some (PStr '''')"
  shows "add_city_council_district rt w row = (Inr (), row, [], w)
       \<and> (\<forall>url params. HttpGet url params \<notin> set (fst (snd (snd (add_city_council_district rt w row)))))
       \<and> dict_contains (fst (snd (add_city_council_district rt w row))) ''geocoded_address''
           = dict_contains row ''geocoded_address''"
  using assms by (simp add: add_city_council_district_def dict_contains_def)

theorem skip_guard_tests_key_presence_witness:
  "add_city_council_district (canned_runtime ''{}'' one_candidate ''{}'' (features_of [7])) 0
     [(''address1'', PStr ''301 W 2nd St''), (''city_council_district'', PStr '''')]
   = (Inr (), [(''address1'', PStr ''301 W 2nd St''), (''city_council_district'', PStr '''')], [], 0)
   \<and> \<not> dict_contains
         (fst (snd (add_city_council_district
            (canned_runtime ''{}'' one_candidate ''{}'' (features_of [7])) 0
            [(''address1'', PStr ''301 W 2nd St''), (''city_council_district'', PStr '''')])))
         ''geocoded_address''"
  using skip_guard_tests_key_presence
    [of "[(''address1'', PStr ''301 W 2nd St''), (''city_council_district'', PStr '''')]"
        "canned_runtime ''{}'' one_candidate ''{}'' (features_of [7])" 0]
  by (simp add: dict_contains_def)

subsection \<open>The address template\<close>

text \<open>
  C3.  Whatever subset of the six address fields a row has, \<open>assemble_address\<close> is the
  template \<open>{address1} {address2}, {city}, {state}, {zip}, {country}\<close> filled with the
  string of each field that is present and with the empty string for each field that is
  absent.
\<close>

theorem assemble_address_template:
  assumes "map_of row ''address1'' = map_option PStr address1"
    and "map_of row ''address2'' = map_option PStr address2"
    and "map_of row ''city'' = map_option PStr city"
    and "map_of row ''state'' = map_option PStr state"
    and "map_of row ''zip'' = map_option PStr zipcode"
    and "map_of row ''country'' = map_option PStr country"
  shows "assemble_address rt row =
           (case address1 of None \<Rightarrow> '''' | Some s \<Rightarrow> s) @ '' '' @
           (case address2 of None \<Rightarrow> '''' | Some s \<Rightarrow> s) @ '', '' @
           (case city of None \<Rightarrow> '''' | Some s \<Rightarrow> s) @ '', '' @
           (case state of None \<Rightarrow> '''' | Some s \<Rightarrow> s) @ '', '' @
           (case zipcode of None \<Rightarrow> '''' | Some s \<Rightarrow> s) @ '', '' @
           (case country of None \<Rightarrow> '''' | Some s \<Rightarrow> s)"
  using assms
  by (simp add: assemble_address_def dict_get_def py_str_def split: option.splits)

theorem assemble_address_template_witness:
  "assemble_address (canned_runtime ''{}'' no_candidates ''{}'' (features_of []))
     [(''first_name'', PStr ''Ann''), (''address1'', PStr ''301 W 2nd St''), (''city'', PStr ''Austin''),
      (''state'', PStr ''TX''), (''zip'', PStr ''78701'')]
   = ''301 W 2nd St , Austin, TX, 78701, ''"
  using assemble_address_template
    [of "[(''first_name'', PStr ''Ann''), (''address1'', PStr ''301 W 2nd St''), (''city'', PStr ''Austin''),
      (''state'', PStr ''TX''), (''zip'', PStr ''78701'')]"
      "Some ''301 W 2nd St''" None "Some ''Austin''" "Some ''TX''" "Some ''78701''" None
      "canned_runtime ''{}'' no_candidates ''{}'' (features_of [])"]
  by simp

subsection \<open>The two service calls, given what the session returns\<close>

lemma geocode_address_on_body:
  assumes "session_get rt w geocode_url (geocode_params address) = (Inr body, w1)"
    and "str_index body CHR ''('' = Some i"
    and "json_loads rt (py_slice body (int i + 1) (- 2)) = Inr data"
  shows "geocode_address rt w address =
           (fst (geocode_payload rt address data),
            HttpGet geocode_url (geocode_params address) #
              (if \<not> startswith body ''callback('' then [Log WARNING (callback_warning body)] else []) @
              snd (geocode_payload rt address data), w1)"
  using assms by (simp add: geocode_address_def Let_def split: prod.splits)

lemma get_council_district_on_body:
  assumes "session_get rt w district_url (district_params rt location) = (Inr body, w1)"
    and "json_loads rt body = Inr data"
  shows "get_council_district rt w location =
           (district_payload rt data, [HttpGet district_url (district_params rt location)], w1)"
  using assms by (simp add: get_council_district_def)

lemma candidate_address_field:
  "candidate_address candidate = Inr g \<Longrightarrow> py_getitem candidate ''address'' = Inr (ga_address g)"
  by (auto simp: candidate_address_def split: sum.splits)

lemma add_not_geocoded:
  assumes "\<not> dict_contains row ''city_council_district''"
    and "geocode_address rt w (assemble_address rt row) = (Inr None, evs, w1)"
  shows "fst (add_city_council_district rt w row) = Inr ()"
    and "fst (snd (add_city_council_district rt w row)) =
           dict_set (dict_set row ''geocoded_address'' (PStr '''')) ''city_council_district'' (PStr '''')"
  using assms by (simp_all add: add_city_council_district_def Let_def)

lemma add_geocoded:
  assumes "\<not> dict_contains row ''city_council_district''"
    and "geocode_address rt w (assemble_address rt row) = (Inr (Some g), evs, w1)"
    and "get_council_district rt w1 (ga_location g) = (Inr d, evs2, w2)"
  shows "fst (add_city_council_district rt w row) = Inr ()"
    and "fst (snd (add_city_council_district rt w row)) =
           dict_set (dict_set row ''geocoded_address'' (ga_address g)) ''city_council_district''
             (case d of Some n \<Rightarrow> PInt n | None \<Rightarrow> PStr ''Unknown'')"
  using assms by (simp_all add: add_city_council_district_def Let_def)

text \<open>The first \<open>(\<close> of a text and the slice the JSONP wrapper leaves.\<close>

lemma str_index_first:
  "c \<notin> set pre \<Longrightarrow> str_index (pre @ c # rest) c = Some (length pre)"
  by (induction pre) auto

lemma str_index_none: "c \<notin> set s \<Longrightarrow> str_index s c = None"
  by (induction s) auto

lemma jsonp_slice:
  "py_slice (pre @ c # rest) (int (length pre) + 1) (- 2) = butlast (butlast rest)"
proof -
  have "slice_bound (length (pre @ c # rest)) (int (length pre) + 1) = Suc (length pre)"
    by (simp add: slice_bound_def)
  moreover have "slice_bound (length (pre @ c # rest)) (- 2) = length pre + length rest - 1"
    by (simp add: slice_bound_def)
  ultimately have "py_slice (pre @ c # rest) (int (length pre) + 1) (- 2)
      = drop (Suc (length pre)) (take (length pre + length rest - 1) (pre @ c # rest))"
    by (simp add: py_slice_def)
  also have "\<dots> = take (length pre + length rest - 1 - Suc (length pre))
                    (drop (Suc (length pre)) (pre @ c # rest))"
    by (rule drop_take)
  also have "\<dots> = take (length rest - 2) rest"
  proof -
    have "length pre + length rest - 1 - Suc (length pre) = length rest - 2" by arith
    then show ?thesis by simp
  qed
  also have "\<dots> = butlast (butlast rest)"
    by (simp add: butlast_conv_take numeral_2_eq_2)
  finally show ?thesis .
qed

subsection \<open>The canned runtime, evaluated\<close>

lemma canned_get_geocode:
  "session_get (canned_runtime gj gv dj dv) w geocode_url params
     = (Inr (''callback('' @ gj @ '');''), Suc w)"
  by (simp add: canned_runtime_def)

lemma canned_get_district:
  "session_get (canned_runtime gj gv dj dv) w district_url params = (Inr dj, Suc w)"
  by (simp add: canned_runtime_def district_url_def geocode_url_def)

lemma canned_loads_geo: "json_loads (canned_runtime gj gv dj dv) gj = Inr gv"
  by (simp add: canned_runtime_def)

lemma canned_loads_district: "dj \<noteq> gj \<Longrightarrow> json_loads (canned_runtime gj gv dj dv) dj = Inr dv"
  by (simp add: canned_runtime_def)

lemma canned_sleep:
  "0 \<le> n \<Longrightarrow> time_sleep (canned_runtime gj gv dj dv) w (PInt n) = (Inr (), w + nat n)"
  by (simp add: canned_runtime_def)

lemma canned_body_index: "str_index (''callback('' @ gj @ '');'') CHR ''('' = Some 8"
  using str_index_first [of "CHR ''(''" "''callback''" "gj @ '');''"] by simp

lemma canned_body_slice: "py_slice (''callback('' @ gj @ '');'') (int 8 + 1) (- 2) = gj"
  using jsonp_slice [of "''callback''" "CHR ''(''" "gj @ '');''"]
  by (simp add: butlast_append)

lemma canned_geocode_address:
  "geocode_address (canned_runtime gj gv dj dv) w address =
     (fst (geocode_payload (canned_runtime gj gv dj dv) address gv),
      HttpGet geocode_url (geocode_params address) #
        snd (geocode_payload (canned_runtime gj gv dj dv) address gv), Suc w)"
proof -
  have "json_loads (canned_runtime gj gv dj dv)
          (py_slice (''callback('' @ gj @ '');'') (int 8 + 1) (- 2)) = Inr gv"
    by (simp only: canned_body_slice canned_loads_geo)
  from geocode_address_on_body [OF canned_get_geocode canned_body_index this]
  show ?thesis by (simp add: startswith_def)
qed

lemma canned_get_council_district:
  "dj \<noteq> gj \<Longrightarrow>
   get_council_district (canned_runtime gj gv dj dv) w location =
     (district_payload (canned_runtime gj gv dj dv) dv,
      [HttpGet district_url (district_params (canned_runtime gj gv dj dv) location)], Suc w)"
  using get_council_district_on_body [OF canned_get_district canned_loads_district] by simp

lemma payload_no_candidates:
  "geocode_payload rt address no_candidates =
     (Inr None, [Log INFO (''No geocoded address found for '' @ address)])"
  by (simp add: geocode_payload_def no_candidates_def py_getitem_def py_truthy_def)

lemma payload_one_candidate:
  "geocode_payload rt address one_candidate =
     (Inr (Some (GeocodedAddress (PStr ''301 W 2ND ST'')
                   (Location (PInt 3112000) (PInt 10070000)) (PInt 100)
                   (Extent (PInt 3111900) (PInt 10069900) (PInt 3112100) (PInt 10070100)))), [])"
  by (simp add: geocode_payload_def one_candidate_def py_getitem_def py_truthy_def
      py_getitem0_def candidate_address_def Location_kwargs_def Extent_kwargs_def dict_keys_def)

lemma payload_features_of:
  "district_payload rt (features_of ds) = (case ds of [] \<Rightarrow> Inr None | d # _ \<Rightarrow> Inr (Some d))"
  by (cases ds)
    (simp_all add: district_payload_def features_of_def py_getitem_def py_truthy_def
      py_getitem0_def py_int_def)

subsection \<open>Augmenting a row\<close>

text \<open>
  C5.  When the geocoder's answer parses to a payload whose candidate list is empty,
  \<open>geocode_address\<close> returns \<open>None\<close> (it does not raise), and a row without a
  \<open>city_council_district\<close> whose address this is comes back from a normal return of
  \<open>add_city_council_district\<close> with \<open>geocoded_address\<close> and \<open>city_council_district\<close>
  both the empty string.
\<close>

theorem empty_candidates_blank_columns:
  assumes "session_get rt w geocode_url (geocode_params address) = (Inr body, w1)"
    and "str_index body CHR ''('' = Some i"
    and "json_loads rt (py_slice body (int i + 1) (- 2)) = Inr data"
    and "py_getitem data ''candidates'' = Inr (PList [])"
    and "\<not> dict_contains row ''city_council_district''"
    and "assemble_address rt row = address"
  shows "fst (geocode_address rt w address) = Inr None
       \<and> fst (add_city_council_district rt w row) = Inr ()
       \<and> map_of (fst (snd (add_city_council_district rt w row))) ''geocoded_address''
           = Some (PStr '''')
       \<and> map_of (fst (snd (add_city_council_district rt w row))) ''city_council_district''
           = Some (PStr '''')"
proof -
  have p: "geocode_payload rt address data =
             (Inr None, [Log INFO (''No geocoded address found for '' @ address)])"
    using assms(4) by (simp add: geocode_payload_def py_truthy_def)
  have g: "geocode_address rt w (assemble_address rt row) =
             (Inr None,
              HttpGet geocode_url (geocode_params address) #
                (if \<not> startswith body ''callback('' then [Log WARNING (callback_warning body)]
                 else []) @
                [Log INFO (''No geocoded address found for '' @ address)], w1)"
    using geocode_address_on_body [OF assms(1-3)] p assms(6) by simp
  show ?thesis
    using g assms(6) add_not_geocoded [OF assms(5) g] by (simp add: map_of_dict_set)
qed

theorem empty_candidates_blank_columns_witness:
  "fst (geocode_address (canned_runtime ''{candidates:[]}'' no_candidates ''{features:[]}'' (features_of []))
          0 ''1 Nowhere Rd , Austin, TX, , '') = Inr None
   \<and> fst (add_city_council_district
            (canned_runtime ''{candidates:[]}'' no_candidates ''{features:[]}'' (features_of [])) 0
            [(''address1'', PStr ''1 Nowhere Rd''), (''city'', PStr ''Austin''), (''state'', PStr ''TX'')])
       = Inr ()
   \<and> map_of (fst (snd (add_city_council_district
            (canned_runtime ''{candidates:[]}'' no_candidates ''{features:[]}'' (features_of [])) 0
            [(''address1'', PStr ''1 Nowhere Rd''), (''city'', PStr ''Austin''), (''state'', PStr ''TX'')])))
        ''geocoded_address'' = Some (PStr '''')
   \<and> map_of (fst (snd (add_city_council_district
            (canned_runtime ''{candidates:[]}'' no_candidates ''{features:[]}'' (features_of [])) 0
            [(''address1'', PStr ''1 Nowhere Rd''), (''city'', PStr ''Austin''), (''state'', PStr ''TX'')])))
        ''city_council_district'' = Some (PStr '''')"
proof (rule empty_candidates_blank_columns
    [where body = "''callback('' @ ''{candidates:[]}'' @ '');''" and i = 8
       and data = no_candidates and ?w1.0 = "Suc 0"])
  show "session_get (canned_runtime ''{candidates:[]}'' no_candidates ''{features:[]}'' (features_of []))
          0 geocode_url (geocode_params ''1 Nowhere Rd , Austin, TX, , '')
        = (Inr (''callback('' @ ''{candidates:[]}'' @ '');''), Suc 0)"
    by (rule canned_get_geocode)
  show "str_index (''callback('' @ ''{candidates:[]}'' @ '');'') CHR ''('' = Some 8"
    by (rule canned_body_index)
  show "json_loads (canned_runtime ''{candidates:[]}'' no_candidates ''{features:[]}'' (features_of []))
          (py_slice (''callback('' @ ''{candidates:[]}'' @ '');'') (int 8 + 1) (- 2))
        = Inr no_candidates"
    by (simp only: canned_body_slice canned_loads_geo)
  show "py_getitem no_candidates ''candidates'' = Inr (PList [])"
    by (simp add: no_candidates_def py_getitem_def)
  show "\<not> dict_contains
           [(''address1'', PStr ''1 Nowhere Rd''), (''city'', PStr ''Austin''), (''state'', PStr ''TX'')]
           ''city_council_district''"
    by (simp add: dict_contains_def)
  show "assemble_address
          (canned_runtime ''{candidates:[]}'' no_candidates ''{features:[]}'' (features_of []))
          [(''address1'', PStr ''1 Nowhere Rd''), (''city'', PStr ''Austin''), (''state'', PStr ''TX'')]
        = ''1 Nowhere Rd , Austin, TX, , ''"
    by (simp add: assemble_address_def dict_get_def py_str_def)
qed

text \<open>
  C6.  When geocoding a row succeeds and the district service's answer parses to a
  payload whose feature list is empty, \<open>get_council_district\<close> returns \<open>None\<close> and the
  row's \<open>city_council_district\<close> is the string \<open>Unknown\<close>.
\<close>

theorem empty_features_unknown:
  assumes "\<not> dict_contains row ''city_council_district''"
    and "geocode_address rt w (assemble_address rt row) = (Inr (Some g), evs, w1)"
    and "session_get rt w1 district_url (district_params rt (ga_location g)) = (Inr body, w2)"
    and "json_loads rt body = Inr data"
    and "py_getitem data ''features'' = Inr (PList [])"
  shows "fst (get_council_district rt w1 (ga_location g)) = Inr None
       \<and> fst (add_city_council_district rt w row) = Inr ()
       \<and> map_of (fst (snd (add_city_council_district rt w row))) ''city_council_district''
           = Some (PStr ''Unknown'')"
proof -
  have p: "district_payload rt data = Inr None"
    using assms(5) by (simp add: district_payload_def py_truthy_def)
  have d: "get_council_district rt w1 (ga_location g) =
             (Inr None, [HttpGet district_url (district_params rt (ga_location g))], w2)"
    using get_council_district_on_body [OF assms(3,4)] p by simp
  show ?thesis
    using d add_geocoded [OF assms(1,2) d] by (simp add: map_of_dict_set)
qed

theorem empty_features_unknown_witness:
  "fst (get_council_district
          (canned_runtime ''{candidates:[c]}'' one_candidate ''{features:[]}'' (features_of []))
          (Suc 0) (Location (PInt 3112000) (PInt 10070000))) = Inr None
   \<and> fst (add_city_council_district
            (canned_runtime ''{candidates:[c]}'' one_candidate ''{features:[]}'' (features_of [])) 0
            [(''address1'', PStr ''301 W 2nd St''), (''city'', PStr ''Austin'')]) = Inr ()
   \<and> map_of (fst (snd (add_city_council_district
            (canned_runtime ''{candidates:[c]}'' one_candidate ''{features:[]}'' (features_of [])) 0
            [(''address1'', PStr ''301 W 2nd St''), (''city'', PStr ''Austin'')])))
        ''city_council_district'' = Some (PStr ''Unknown'')"
  using empty_features_unknown
    [of "[(''address1'', PStr ''301 W 2nd St''), (''city'', PStr ''Austin'')]"
        "canned_runtime ''{candidates:[c]}'' one_candidate ''{features:[]}'' (features_of [])" 0
        "GeocodedAddress (PStr ''301 W 2ND ST'') (Location (PInt 3112000) (PInt 10070000)) (PInt 100)
           (Extent (PInt 3111900) (PInt 10069900) (PInt 3112100) (PInt 10070100))"
        "[HttpGet geocode_url (geocode_params
            (assemble_address
               (canned_runtime ''{candidates:[c]}'' one_candidate ''{features:[]}'' (features_of []))
               [(''address1'', PStr ''301 W 2nd St''), (''city'', PStr ''Austin'')]))]"
        "Suc 0" "''{features:[]}''" "Suc (Suc 0)" "features_of []"]
  by (simp add: dict_contains_def canned_geocode_address payload_one_candidate canned_get_district
      canned_loads_district)
    (simp add: features_of_def py_getitem_def)

text \<open>
  C4, as the code has it.  For a row without a \<open>city_council_district\<close>: when the
  geocoder's answer parses to a payload whose candidate list starts with a well-formed
  candidate (an \<open>address\<close>, a \<open>location\<close> with exactly \<open>x\<close> and \<open>y\<close>, a \<open>score\<close>, an
  \<open>extent\<close> with exactly its four corners) and the district service's answer parses to a
  payload whose first feature has the \<open>COUNCIL_DISTRICT\<close> attribute 7, the call returns
  normally, the row's \<open>geocoded_address\<close> is that candidate's \<open>address\<close> and its
  \<open>city_council_district\<close> is the integer 7.  Only the first feature counts.
\<close>

theorem first_feature_district_written:
  assumes "\<not> dict_contains row ''city_council_district''"
    and "session_get rt w geocode_url (geocode_params (assemble_address rt row)) = (Inr body, w1)"
    and "str_index body CHR ''('' = Some i"
    and "json_loads rt (py_slice body (int i + 1) (- 2)) = Inr data"
    and "py_getitem data ''candidates'' = Inr (PList (candidate # candidates))"
    and "candidate_address candidate = Inr g"
    and "session_get rt w1 district_url (district_params rt (ga_location g)) = (Inr body2, w2)"
    and "json_loads rt body2 = Inr data2"
    and "py_getitem data2 ''features'' = Inr (PList (feature # features))"
    and "py_getitem feature ''attributes'' = Inr attrs"
    and "py_getitem attrs ''COUNCIL_DISTRICT'' = Inr (PInt 7)"
  shows "fst (add_city_council_district rt w row) = Inr ()
       \<and> py_getitem candidate ''address'' = Inr (ga_address g)
       \<and> map_of (fst (snd (add_city_council_district rt w row))) ''geocoded_address''
           = Some (ga_address g)
       \<and> map_of (fst (snd (add_city_council_district rt w row))) ''city_council_district''
           = Some (PInt 7)"
proof -
  have p: "geocode_payload rt (assemble_address rt row) data = (Inr (Some g), [])"
    using assms(5,6) by (simp add: geocode_payload_def py_truthy_def py_getitem0_def)
  have ga: "geocode_address rt w (assemble_address rt row) =
             (Inr (Some g),
              HttpGet geocode_url (geocode_params (assemble_address rt row)) #
                (if \<not> startswith body ''callback('' then [Log WARNING (callback_warning body)]
                 else []), w1)"
    using geocode_address_on_body [OF assms(2-4)] p by simp
  have q: "district_payload rt data2 = Inr (Some 7)"
    using assms(9-11) by (simp add: district_payload_def py_truthy_def py_getitem0_def py_int_def)
  have d: "get_council_district rt w1 (ga_location g) =
             (Inr (Some 7), [HttpGet district_url (district_params rt (ga_location g))], w2)"
    using get_council_district_on_body [OF assms(7,8)] q by simp
  show ?thesis
    using add_geocoded [OF assms(1) ga d] candidate_address_field [OF assms(6)]
    by (simp add: map_of_dict_set)
qed

theorem first_feature_district_written_witness:
  "fst (add_city_council_district
          (canned_runtime ''{candidates:[c]}'' one_candidate ''{features:[7]}'' (features_of [7])) 0
          [(''address1'', PStr ''301 W 2nd St''), (''city'', PStr ''Austin'')]) = Inr ()
   \<and> map_of (fst (snd (add_city_council_district
          (canned_runtime ''{candidates:[c]}'' one_candidate ''{features:[7]}'' (features_of [7])) 0
          [(''address1'', PStr ''301 W 2nd St''), (''city'', PStr ''Austin'')])))
        ''geocoded_address'' = Some (PStr ''301 W 2ND ST'')
   \<and> map_of (fst (snd (add_city_council_district
          (canned_runtime ''{candidates:[c]}'' one_candidate ''{features:[7]}'' (features_of [7])) 0
          [(''address1'', PStr ''301 W 2nd St''), (''city'', PStr ''Austin'')])))
        ''city_council_district'' = Some (PInt 7)"
proof -
  let ?rt = "canned_runtime ''{candidates:[c]}'' one_candidate ''{features:[7]}'' (features_of [7])"
  let ?row = "[(''address1'', PStr ''301 W 2nd St''), (''city'', PStr ''Austin'')]"
  let ?cand = "PDict
       [(''address'', PStr ''301 W 2ND ST''),
        (''location'', PDict [(''x'', PInt 3112000), (''y'', PInt 10070000)]),
        (''score'', PInt 100),
        (''extent'', PDict [(''xmin'', PInt 3111900), (''ymin'', PInt 10069900),
                           (''xmax'', PInt 3112100), (''ymax'', PInt 10070100)])]"
  let ?g = "GeocodedAddress (PStr ''301 W 2ND ST'') (Location (PInt 3112000) (PInt 10070000))
              (PInt 100) (Extent (PInt 3111900) (PInt 10069900) (PInt 3112100) (PInt 10070100))"
  have 1: "\<not> dict_contains ?row ''city_council_district''"
    by (simp add: dict_contains_def)
  have 2: "session_get ?rt 0 geocode_url (geocode_params (assemble_address ?rt ?row))
             = (Inr (''callback('' @ ''{candidates:[c]}'' @ '');''), Suc 0)"
    by (rule canned_get_geocode)
  have 3: "str_index (''callback('' @ ''{candidates:[c]}'' @ '');'') CHR ''('' = Some 8"
    by (rule canned_body_index)
  have 4: "json_loads ?rt (py_slice (''callback('' @ ''{candidates:[c]}'' @ '');'') (int 8 + 1) (- 2))
             = Inr one_candidate"
    by (simp only: canned_body_slice canned_loads_geo)
  have 5: "py_getitem one_candidate ''candidates'' = Inr (PList (?cand # []))"
    by (simp add: one_candidate_def py_getitem_def)
  have 6: "candidate_address ?cand = Inr ?g"
    by (simp add: candidate_address_def py_getitem_def Location_kwargs_def Extent_kwargs_def
        dict_keys_def)
  have 7: "session_get ?rt (Suc 0) district_url (district_params ?rt (ga_location ?g))
             = (Inr ''{features:[7]}'', Suc (Suc 0))"
    by (rule canned_get_district)
  have 8: "json_loads ?rt ''{features:[7]}'' = Inr (features_of [7])"
    by (rule canned_loads_district) simp
  have 9: "py_getitem (features_of [7]) ''features''
             = Inr (PList (PDict [(''attributes'', PDict [(''COUNCIL_DISTRICT'', PInt 7)])] # []))"
    by (simp add: features_of_def py_getitem_def)
  have 10: "py_getitem (PDict [(''attributes'', PDict [(''COUNCIL_DISTRICT'', PInt 7)])]) ''attributes''
             = Inr (PDict [(''COUNCIL_DISTRICT'', PInt 7)])"
    by (simp add: py_getitem_def)
  have 11: "py_getitem (PDict [(''COUNCIL_DISTRICT'', PInt 7)]) ''COUNCIL_DISTRICT'' = Inr (PInt (7::int))"
    by (simp add: py_getitem_def)
  from first_feature_district_written [OF 1 2 3 4 5 6 7 8 9 10 11]
  show ?thesis by simp
qed

text \<open>
  C4 as stated fails: a district answer with two features, of districts 3 and 7, does
  have a feature whose \<open>COUNCIL_DISTRICT\<close> is 7, and the row gets the integer 3, the
  district of the first feature.
\<close>

theorem some_feature_seven_counterexample:
  "\<not> dict_contains [(''address1'', PStr ''301 W 2nd St'')] ''city_council_district''
   \<and> json_loads (canned_runtime ''{candidates:[c]}'' one_candidate ''{features:[3,7]}'' (features_of [3, 7]))
        ''{candidates:[c]}'' = Inr one_candidate
   \<and> json_loads (canned_runtime ''{candidates:[c]}'' one_candidate ''{features:[3,7]}'' (features_of [3, 7]))
        ''{features:[3,7]}'' = Inr (features_of [3, 7])
   \<and> py_getitem (features_of [3, 7]) ''features'' =
        Inr (PList [PDict [(''attributes'', PDict [(''COUNCIL_DISTRICT'', PInt 3)])],
                    PDict [(''attributes'', PDict [(''COUNCIL_DISTRICT'', PInt 7)])]])
   \<and> fst (add_city_council_district
        (canned_runtime ''{candidates:[c]}'' one_candidate ''{features:[3,7]}'' (features_of [3, 7])) 0
        [(''address1'', PStr ''301 W 2nd St'')]) = Inr ()
   \<and> fst (snd (add_city_council_district
        (canned_runtime ''{candidates:[c]}'' one_candidate ''{features:[3,7]}'' (features_of [3, 7])) 0
        [(''address1'', PStr ''301 W 2nd St'')]))
       = [(''address1'', PStr ''301 W 2nd St''), (''geocoded_address'', PStr ''301 W 2ND ST''),
          (''city_council_district'', PInt 3)]"
proof -
  let ?rt = "canned_runtime ''{candidates:[c]}'' one_candidate ''{features:[3,7]}'' (features_of [3, 7])"
  let ?row = "[(''address1'', PStr ''301 W 2nd St'')]"
  let ?g = "GeocodedAddress (PStr ''301 W 2ND ST'') (Location (PInt 3112000) (PInt 10070000))
              (PInt 100) (Extent (PInt 3111900) (PInt 10069900) (PInt 3112100) (PInt 10070100))"
  have 1: "\<not> dict_contains ?row ''city_council_district''"
    by (simp add: dict_contains_def)
  have 2: "geocode_address ?rt 0 (assemble_address ?rt ?row) =
             (Inr (Some ?g), [HttpGet geocode_url (geocode_params (assemble_address ?rt ?row))], Suc 0)"
    by (simp add: canned_geocode_address payload_one_candidate)
  have 3: "get_council_district ?rt (Suc 0) (ga_location ?g) =
             (Inr (Some 3), [HttpGet district_url (district_params ?rt (ga_location ?g))], Suc (Suc 0))"
    by (simp add: canned_get_council_district payload_features_of)
  have 4: "json_loads ?rt ''{features:[3,7]}'' = Inr (features_of [3, 7])"
    by (rule canned_loads_district) simp
  show ?thesis
    using 1 4 add_geocoded [OF 1 2 3]
    by (simp add: canned_loads_geo features_of_def py_getitem_def dict_set_def)
qed

subsection \<open>The JSONP wrapper\<close>

text \<open>
  C7.  Whatever text the geocoder returns, \<open>geocode_address\<close> tests that it starts with
  \<open>callback(\<close> and logs a warning when it does not, and goes on in both cases: when the
  text has a \<open>(\<close>, what \<open>json.loads\<close> is given is the text after the first \<open>(\<close> without its
  last two characters, and the call ends as the parse of that text makes it end; when
  the text has no \<open>(\<close>, the search for it raises ValueError, after the warning.
\<close>

theorem geocode_address_jsonp:
  assumes "session_get rt w geocode_url (geocode_params address) = (Inr body, w1)"
  shows "(\<forall>pre rest. body = pre @ CHR ''('' # rest \<and> CHR ''('' \<notin> set pre \<longrightarrow>
            geocode_address rt w address =
              (case json_loads rt (butlast (butlast rest)) of
                 Inl e \<Rightarrow>
                   (Inl e,
                    HttpGet geocode_url (geocode_params address) #
                      (if startswith body ''callback('' then []
                       else [Log WARNING (callback_warning body)]), w1)
               | Inr data \<Rightarrow>
                   (fst (geocode_payload rt address data),
                    HttpGet geocode_url (geocode_params address) #
                      (if startswith body ''callback('' then []
                       else [Log WARNING (callback_warning body)]) @
                      snd (geocode_payload rt address data), w1)))
       \<and> (CHR ''('' \<notin> set body \<longrightarrow>
            geocode_address rt w address =
              (Inl ValueError,
               [HttpGet geocode_url (geocode_params address),
                Log WARNING (callback_warning body)], w1))"
proof (intro conjI allI impI)
  fix pre rest
  assume "body = pre @ CHR ''('' # rest \<and> CHR ''('' \<notin> set pre"
  then have b: "body = pre @ CHR ''('' # rest" and n: "CHR ''('' \<notin> set pre" by simp_all
  have i: "str_index body CHR ''('' = Some (length pre)"
    using str_index_first [OF n] b by simp
  have s: "py_slice body (int (length pre) + 1) (- 2) = butlast (butlast rest)"
    using jsonp_slice [of pre "CHR ''(''" rest] b by simp
  show "geocode_address rt w address =
              (case json_loads rt (butlast (butlast rest)) of
                 Inl e \<Rightarrow>
                   (Inl e,
                    HttpGet geocode_url (geocode_params address) #
                      (if startswith body ''callback('' then []
                       else [Log WARNING (callback_warning body)]), w1)
               | Inr data \<Rightarrow>
                   (fst (geocode_payload rt address data),
                    HttpGet geocode_url (geocode_params address) #
                      (if startswith body ''callback('' then []
                       else [Log WARNING (callback_warning body)]) @
                      snd (geocode_payload rt address data), w1))"
    using assms i s
    by (simp add: geocode_address_def Let_def split: sum.splits prod.splits)
next
  assume n: "CHR ''('' \<notin> set body"
  have i: "str_index body CHR ''('' = None"
    using str_index_none [OF n] .
  have "\<not> startswith body ''callback(''"
  proof
    assume "startswith body ''callback(''"
    then have "set ''callback('' \<subseteq> set body"
      unfolding startswith_def by (metis set_take_subset)
    then show False using n by simp
  qed
  then show "geocode_address rt w address =
              (Inl ValueError,
               [HttpGet geocode_url (geocode_params address),
                Log WARNING (callback_warning body)], w1)"
    using assms i by (simp add: geocode_address_def Let_def)
qed

theorem geocode_address_jsonp_witness:
  "geocode_address
     ((canned_runtime ''{candidates:[]}'' no_candidates ''{features:[]}'' (features_of []))
        \<lparr>session_get := \<lambda>w url params. (Inr ''cb({candidates:[]});'', Suc w)\<rparr>)
     0 ''1 Nowhere Rd , , , , ''
   = (Inr None,
      [HttpGet geocode_url (geocode_params ''1 Nowhere Rd , , , , ''),
       Log WARNING ''Received JSONP response with callback name cb({candid.. which is not expected.'',
       Log INFO ''No geocoded address found for 1 Nowhere Rd , , , , ''],
      Suc 0)
   \<and> geocode_address
     ((canned_runtime ''{candidates:[]}'' no_candidates ''{features:[]}'' (features_of []))
        \<lparr>session_get := \<lambda>w url params. (Inr ''Service Unavailable'', Suc w)\<rparr>)
     0 ''1 Nowhere Rd , , , , ''
   = (Inl ValueError,
      [HttpGet geocode_url (geocode_params ''1 Nowhere Rd , , , , ''),
       Log WARNING ''Received JSONP response with callback name Service Un.. which is not expected.''],
      Suc 0)"
proof -
  let ?rt = "canned_runtime ''{candidates:[]}'' no_candidates ''{features:[]}'' (features_of [])"
  let ?rt1 = "?rt\<lparr>session_get := \<lambda>w url params. (Inr ''cb({candidates:[]});'', Suc w)\<rparr>"
  let ?rt2 = "?rt\<lparr>session_get := \<lambda>w url params. (Inr ''Service Unavailable'', Suc w)\<rparr>"
  have g1: "session_get ?rt1 0 geocode_url (geocode_params ''1 Nowhere Rd , , , , '')
              = (Inr ''cb({candidates:[]});'', Suc 0)"
    by simp
  have g2: "session_get ?rt2 0 geocode_url (geocode_params ''1 Nowhere Rd , , , , '')
              = (Inr ''Service Unavailable'', Suc 0)"
    by simp
  have l: "json_loads ?rt1 ''{candidates:[]}'' = Inr no_candidates"
    by (simp add: canned_runtime_def)
  have "geocode_address ?rt1 0 ''1 Nowhere Rd , , , , '' =
          (Inr None,
           [HttpGet geocode_url (geocode_params ''1 Nowhere Rd , , , , ''),
            Log WARNING ''Received JSONP response with callback name cb({candid.. which is not expected.'',
            Log INFO ''No geocoded address found for 1 Nowhere Rd , , , , ''],
           Suc 0)"
    using geocode_address_jsonp [OF g1, THEN conjunct1, rule_format, of "''cb''" "''{candidates:[]});''"] l
    by (simp add: payload_no_candidates startswith_def callback_warning_def py_slice_def
        slice_bound_def)
  moreover have "geocode_address ?rt2 0 ''1 Nowhere Rd , , , , '' =
          (Inl ValueError,
           [HttpGet geocode_url (geocode_params ''1 Nowhere Rd , , , , ''),
            Log WARNING ''Received JSONP response with callback name Service Un.. which is not expected.''],
           Suc 0)"
    using geocode_address_jsonp [OF g2, THEN conjunct2]
    by (simp add: callback_warning_def py_slice_def slice_bound_def)
  ultimately show ?thesis by simp
qed

subsection \<open>What a call leaves of the row\<close>

text \<open>
  C8, as the code has it.  After \<open>add_city_council_district\<close>, however the call ends,
  every column the row had keeps its value, except that \<open>geocoded_address\<close> is
  overwritten when the row has no \<open>city_council_district\<close>; the keys of the row are
  its old keys, in their order, followed by nothing but \<open>geocoded_address\<close> and
  \<open>city_council_district\<close>.
\<close>

theorem add_preserves_other_columns:
  "(\<forall>k v. map_of row k = Some v
            \<and> (k \<noteq> ''geocoded_address'' \<or> dict_contains row ''city_council_district'')
       \<longrightarrow> map_of (fst (snd (add_city_council_district rt w row))) k = Some v)
   \<and> set (dict_keys (fst (snd (add_city_council_district rt w row))))
       \<subseteq> set (dict_keys row) \<union> {''geocoded_address'', ''city_council_district''}
   \<and> take (length row) (dict_keys (fst (snd (add_city_council_district rt w row)))) = dict_keys row"
proof -
  obtain r row' evs w' where a: "add_city_council_district rt w row = (r, row', evs, w')"
    by (metis prod_cases4)
  have len: "length (dict_keys row) = length row" by (simp add: dict_keys_def)
  note c = add_cases [OF a]
  have 1: "\<forall>k v. map_of row k = Some v
             \<and> (k \<noteq> ''geocoded_address'' \<or> dict_contains row ''city_council_district'')
       \<longrightarrow> map_of row' k = Some v"
    using c by (auto simp: map_of_dict_set dict_contains_def)
  have 2: "set (dict_keys row')
             \<subseteq> set (dict_keys row) \<union> {''geocoded_address'', ''city_council_district''}"
    using c by (auto simp: dict_keys_dict_set split: if_splits)
  have 3: "take (length row) (dict_keys row') = dict_keys row"
    using c len by (auto simp: dict_keys_dict_set split: if_splits)
  show ?thesis using a 1 2 3 by simp
qed

theorem add_preserves_other_columns_witness:
  "map_of (fst (snd (add_city_council_district
      (canned_runtime ''{candidates:[c]}'' one_candidate ''{features:[7]}'' (features_of [7])) 0
      [(''address1'', PStr ''301 W 2nd St''), (''geocoded_address'', PStr ''old'')])))
     ''address1'' = Some (PStr ''301 W 2nd St'')
   \<and> fst (snd (add_city_council_district
      (canned_runtime ''{candidates:[c]}'' one_candidate ''{features:[7]}'' (features_of [7])) 0
      [(''address1'', PStr ''301 W 2nd St''), (''geocoded_address'', PStr ''old'')]))
     = [(''address1'', PStr ''301 W 2nd St''), (''geocoded_address'', PStr ''301 W 2ND ST''),
        (''city_council_district'', PInt 7)]"
proof -
  let ?rt = "canned_runtime ''{candidates:[c]}'' one_candidate ''{features:[7]}'' (features_of [7])"
  let ?row = "[(''address1'', PStr ''301 W 2nd St''), (''geocoded_address'', PStr ''old'')]"
  let ?g = "GeocodedAddress (PStr ''301 W 2ND ST'') (Location (PInt 3112000) (PInt 10070000))
              (PInt 100) (Extent (PInt 3111900) (PInt 10069900) (PInt 3112100) (PInt 10070100))"
  have 1: "\<not> dict_contains ?row ''city_council_district''"
    by (simp add: dict_contains_def)
  have 2: "geocode_address ?rt 0 (assemble_address ?rt ?row) =
             (Inr (Some ?g), [HttpGet geocode_url (geocode_params (assemble_address ?rt ?row))], Suc 0)"
    by (simp add: canned_geocode_address payload_one_candidate)
  have 3: "get_council_district ?rt (Suc 0) (ga_location ?g) =
             (Inr (Some 7), [HttpGet district_url (district_params ?rt (ga_location ?g))], Suc (Suc 0))"
    by (simp add: canned_get_council_district payload_features_of)
  have "map_of ?row ''address1'' = Some (PStr ''301 W 2nd St'')
        \<and> (''address1'' \<noteq> ''geocoded_address'' \<or> dict_contains ?row ''city_council_district'')"
    by simp
  with add_preserves_other_columns [of ?row ?rt 0]
  have "map_of (fst (snd (add_city_council_district ?rt 0 ?row))) ''address1''
          = Some (PStr ''301 W 2nd St'')"
    by blast
  then show ?thesis
    using add_geocoded(2) [OF 1 2 3] by (simp add: dict_set_def)
qed

text \<open>
  C8 as stated fails: a row that has a \<open>geocoded_address\<close> column and no
  \<open>city_council_district\<close> column loses the value of \<open>geocoded_address\<close>.
\<close>

theorem geocoded_address_overwritten_counterexample:
  "map_of [(''address1'', PStr ''1 Nowhere Rd''), (''geocoded_address'', PStr ''old'')]
      ''geocoded_address'' = Some (PStr ''old'')
   \<and> fst (add_city_council_district
        (canned_runtime ''{candidates:[]}'' no_candidates ''{features:[]}'' (features_of [])) 0
        [(''address1'', PStr ''1 Nowhere Rd''), (''geocoded_address'', PStr ''old'')]) = Inr ()
   \<and> fst (snd (add_city_council_district
        (canned_runtime ''{candidates:[]}'' no_candidates ''{features:[]}'' (features_of [])) 0
        [(''address1'', PStr ''1 Nowhere Rd''), (''geocoded_address'', PStr ''old'')]))
     = [(''address1'', PStr ''1 Nowhere Rd''), (''geocoded_address'', PStr ''''),
        (''city_council_district'', PStr '''')]"
proof -
  let ?rt = "canned_runtime ''{candidates:[]}'' no_candidates ''{features:[]}'' (features_of [])"
  let ?row = "[(''address1'', PStr ''1 Nowhere Rd''), (''geocoded_address'', PStr ''old'')]"
  have 1: "\<not> dict_contains ?row ''city_council_district''"
    by (simp add: dict_contains_def)
  have 2: "geocode_address ?rt 0 (assemble_address ?rt ?row) =
             (Inr None,
              [HttpGet geocode_url (geocode_params (assemble_address ?rt ?row)),
               Log INFO (''No geocoded address found for '' @ assemble_address ?rt ?row)], Suc 0)"
    by (simp add: canned_geocode_address payload_no_candidates)
  show ?thesis
    using add_not_geocoded [OF 1 2] by (simp add: dict_set_def)
qed

subsection \<open>The pause between rows\<close>

lemma sleep_free_append: "sleep_free (xs @ ys) \<longleftrightarrow> sleep_free xs \<and> sleep_free ys"
  by (simp add: sleep_free_def)

lemma sleep_free_butlast: "sleep_free xs \<Longrightarrow> sleep_free (butlast xs)"
  by (induction xs) (auto simp: sleep_free_def)

lemma geocode_payload_sleep_free:
  "geocode_payload rt address data = (r, evs) \<Longrightarrow> sleep_free evs"
  by (auto simp: geocode_payload_def sleep_free_def split: sum.splits if_splits)

lemma geocode_address_sleep_free:
  "geocode_address rt w address = (r, evs, w1) \<Longrightarrow> sleep_free evs"
  by (auto simp: geocode_address_def Let_def sleep_free_def
      split: prod.splits sum.splits option.splits if_splits
      dest!: geocode_payload_sleep_free)

lemma get_council_district_sleep_free:
  "get_council_district rt w location = (r, evs, w1) \<Longrightarrow> sleep_free evs"
  by (auto simp: get_council_district_def sleep_free_def split: prod.splits sum.splits)

lemma add_sleep_free:
  assumes "add_city_council_district rt w row = (r, row', evs, w')"
  shows "sleep_free evs"
proof (cases "dict_contains row ''city_council_district''")
  case True
  with assms show ?thesis by (simp add: add_city_council_district_def sleep_free_def)
next
  case False
  obtain gr gevs w1 where g: "geocode_address rt w (assemble_address rt row) = (gr, gevs, w1)"
    by (metis prod_cases3)
  note gs = geocode_address_sleep_free [OF g]
  show ?thesis
  proof (cases gr)
    case (Inl e)
    with assms False g gs show ?thesis by (simp add: add_city_council_district_def)
  next
    case (Inr go)
    show ?thesis
    proof (cases go)
      case None
      with assms False g gs Inr show ?thesis
        by (auto simp: add_city_council_district_def Let_def sleep_free_def district_log_def)
    next
      case (Some ga)
      obtain dr devs w2 where d: "get_council_district rt w1 (ga_location ga) = (dr, devs, w2)"
        by (metis prod_cases3)
      note ds = get_council_district_sleep_free [OF d]
      from assms False g gs Inr Some d ds show ?thesis
        by (cases dr)
          (auto simp: add_city_council_district_def Let_def sleep_free_def district_log_def)
    qed
  qed
qed

lemma row_step_intro:
  "sleep_free body \<Longrightarrow> row_step rt iv row (processing_log rt row # body @ [Sleep iv])"
  by (simp add: row_step_def)

text \<open>The events of the loop, turn by turn.\<close>

lemma main_loop_turns:
  assumes "main_loop rt iv w rows = (res, evs, w')"
  shows "\<exists>turns rest.
           evs = concat turns @ rest
         \<and> list_all2 (row_step rt iv) (take (length turns) rows) turns
         \<and> (case res of
              Inr rows' \<Rightarrow> length turns = length rows \<and> rest = []
            | Inl e \<Rightarrow> length turns < length rows \<and> rest \<noteq> []
                \<and> hd rest = processing_log rt (rows ! length turns)
                \<and> sleep_free (butlast (tl rest)))"
  using assms
proof (induction rows arbitrary: w res evs w')
  case Nil
  then have "res = Inr [] \<and> evs = []" by auto
  then show ?case
    by (intro exI [of _ "[]"]) simp
next
  case (Cons row rows)
  obtain r row1 aevs w1 where a: "add_city_council_district rt w row = (r, row1, aevs, w1)"
    by (metis prod_cases4)
  note af = add_sleep_free [OF a]
  show ?case
  proof (cases r)
    case (Inl e)
    with Cons.prems a have "res = Inl e" and "evs = processing_log rt row # aevs" by auto
    with af show ?thesis
      by (intro exI [of _ "[]"] exI [of _ evs]) (simp add: sleep_free_butlast)
  next
    case (Inr u)
    obtain sr w2 where s: "time_sleep rt w1 iv = (sr, w2)" by (metis surj_pair)
    show ?thesis
    proof (cases sr)
      case (Inl e)
      with Cons.prems a Inr s
      have "res = Inl e" and "evs = processing_log rt row # aevs @ [Sleep iv]" by auto
      with af show ?thesis
        by (intro exI [of _ "[]"] exI [of _ evs]) simp
    next
      case sok: (Inr u')
      obtain res2 evs2 w3 where l: "main_loop rt iv w2 rows = (res2, evs2, w3)"
        by (metis prod_cases3)
      from Cons.IH [OF l] obtain turns rest where
        e2: "evs2 = concat turns @ rest"
        and t2: "list_all2 (row_step rt iv) (take (length turns) rows) turns"
        and c2: "case res2 of
              Inr rows' \<Rightarrow> length turns = length rows \<and> rest = []
            | Inl e \<Rightarrow> length turns < length rows \<and> rest \<noteq> []
                \<and> hd rest = processing_log rt (rows ! length turns)
                \<and> sleep_free (butlast (tl rest))"
        by blast
      let ?turn = "processing_log rt row # aevs @ [Sleep iv]"
      have ev: "evs = ?turn @ evs2"
        using Cons.prems a Inr s sok l by (cases res2) auto
      have rs: "(\<exists>e. res = Inl e \<and> res2 = Inl e) \<or> (\<exists>rows'. res = Inr (row1 # rows') \<and> res2 = Inr rows')"
        using Cons.prems a Inr s sok l by (cases res2) auto
      have 1: "evs = concat (?turn # turns) @ rest"
        using ev e2 by simp
      have 2: "list_all2 (row_step rt iv) (take (length (?turn # turns)) (row # rows)) (?turn # turns)"
        using t2 row_step_intro [OF af] by simp
      have 3: "case res of
              Inr rows' \<Rightarrow> length (?turn # turns) = length (row # rows) \<and> rest = []
            | Inl e \<Rightarrow> length (?turn # turns) < length (row # rows) \<and> rest \<noteq> []
                \<and> hd rest = processing_log rt ((row # rows) ! length (?turn # turns))
                \<and> sleep_free (butlast (tl rest))"
        using rs c2 by auto
      from 1 2 3 show ?thesis by blast
    qed
  qed
qed

text \<open>The clock of the world: any reading \<open>now\<close> of it that no request turns back is not
  turned back by a call of \<open>add_city_council_district\<close>.\<close>

lemma geocode_address_world:
  "geocode_address rt w address = (r, evs, w1) \<Longrightarrow>
   w1 = snd (session_get rt w geocode_url (geocode_params address))"
  by (auto simp: geocode_address_def Let_def split: prod.splits sum.splits option.splits)

lemma get_council_district_world:
  "get_council_district rt w location = (r, evs, w1) \<Longrightarrow>
   w1 = snd (session_get rt w district_url (district_params rt location))"
  by (auto simp: get_council_district_def split: prod.splits sum.splits)

lemma add_clock:
  fixes now :: "'w \<Rightarrow> 't::order"
  assumes mono: "\<forall>w0 url params. now w0 \<le> now (snd (session_get rt w0 url params))"
    and a: "add_city_council_district rt w row = (r, row', evs, w')"
  shows "now w \<le> now w'"
proof (cases "dict_contains row ''city_council_district''")
  case True
  with a show ?thesis by (simp add: add_city_council_district_def)
next
  case False
  obtain gr gevs w1 where g: "geocode_address rt w (assemble_address rt row) = (gr, gevs, w1)"
    by (metis prod_cases3)
  have 1: "now w \<le> now w1"
    using geocode_address_world [OF g] mono by simp
  show ?thesis
  proof (cases gr)
    case (Inl e)
    with a False g 1 show ?thesis by (simp add: add_city_council_district_def)
  next
    case (Inr go)
    show ?thesis
    proof (cases go)
      case None
      with a False g 1 Inr show ?thesis by (simp add: add_city_council_district_def Let_def)
    next
      case (Some ga)
      obtain dr devs w2 where d: "get_council_district rt w1 (ga_location ga) = (dr, devs, w2)"
        by (metis prod_cases3)
      have 2: "now w1 \<le> now w2"
        using get_council_district_world [OF d] mono by simp
      have "w' = w2"
        using a False g Inr Some d by (cases dr) (simp_all add: add_city_council_district_def Let_def)
      with 1 2 show ?thesis by simp
    qed
  qed
qed

text \<open>A loop that ends normally on \<open>row # rows\<close> augmented or skipped \<open>row\<close>, slept, and
  went on with \<open>rows\<close> from the world the sleep left.\<close>

lemma main_loop_Cons_Inr:
  assumes "fst (main_loop rt iv w (row # rows)) = Inr ys"
  shows "\<exists>row' aevs w1 w2.
           add_city_council_district rt w row = (Inr (), row', aevs, w1)
         \<and> time_sleep rt w1 iv = (Inr (), w2)
         \<and> (\<exists>ys'. fst (main_loop rt iv w2 rows) = Inr ys')
         \<and> snd (snd (main_loop rt iv w (row # rows))) = snd (snd (main_loop rt iv w2 rows))"
proof -
  obtain r row1 aevs w1 where a: "add_city_council_district rt w row = (r, row1, aevs, w1)"
    by (metis prod_cases4)
  obtain sr w2 where s: "time_sleep rt w1 iv = (sr, w2)" by (metis surj_pair)
  obtain res2 evs2 w3 where l: "main_loop rt iv w2 rows = (res2, evs2, w3)"
    by (metis prod_cases3)
  from assms a s l have "r = Inr ()" and "sr = Inr ()" and "\<exists>ys'. res2 = Inr ys'"
    by (cases r; cases sr; cases res2; simp)+
  with a s l show ?thesis by auto
qed

lemma main_loop_turn_world:
  assumes "add_city_council_district rt w row = (Inr (), row', aevs, w1)"
    and "time_sleep rt w1 iv = (Inr (), w2)"
  shows "snd (snd (main_loop rt iv w (row # rows))) = snd (snd (main_loop rt iv w2 rows))"
  using assms by (simp split: prod.splits sum.splits)

lemma main_loop_turn_time:
  fixes now :: "'w \<Rightarrow> 't::ordered_ab_semigroup_add"
  assumes mono: "\<forall>w0 url params. now w0 \<le> now (snd (session_get rt w0 url params))"
    and slp: "\<forall>w0 w1. time_sleep rt w0 iv = (Inr (), w1) \<longrightarrow> now w0 + d \<le> now w1"
    and k: "k < length rows"
    and ok: "fst (main_loop rt iv w (take (Suc k) rows)) = Inr ys"
  shows "now (snd (snd (main_loop rt iv w (take k rows)))) + d
           \<le> now (snd (snd (main_loop rt iv w (take (Suc k) rows))))"
  using k ok
proof (induction rows arbitrary: w k ys)
  case Nil
  then show ?case by simp
next
  case (Cons row rows)
  from Cons.prems(2) have "fst (main_loop rt iv w (row # take k rows)) = Inr ys" by simp
  from main_loop_Cons_Inr [OF this] obtain row' aevs w1 w2 ys' where
    a: "add_city_council_district rt w row = (Inr (), row', aevs, w1)"
    and s: "time_sleep rt w1 iv = (Inr (), w2)"
    and r: "fst (main_loop rt iv w2 (take k rows)) = Inr ys'"
    by blast
  show ?case
  proof (cases k)
    case 0
    have "now w \<le> now w1" using add_clock [OF mono a] .
    then have "now w + d \<le> now w1 + d" by (rule add_right_mono)
    also have "\<dots> \<le> now w2" using slp s by blast
    finally show ?thesis
      using 0 main_loop_turn_world [OF a s, of "[]"] by simp
  next
    case (Suc j)
    with Cons.prems(1) have j: "j < length rows" by simp
    from r Suc have "fst (main_loop rt iv w2 (take (Suc j) rows)) = Inr ys'" by simp
    from Cons.IH [OF j this]
    show ?thesis
      using Suc main_loop_turn_world [OF a s, of "take j rows"]
        main_loop_turn_world [OF a s, of "take (Suc j) rows"]
      by simp
  qed
qed

text \<open>
  C9.  However the loop ends, its events are the full turns of the first rows, one turn
  per row in order, each opened by the line announcing its row and closed by the sleep
  of the configured interval, whether \<open>add_city_council_district\<close> augmented the row or
  skipped it; when the loop ends normally every row has had its full turn, and when an
  exception ends it the turn of one more row was begun and nothing follows it.  And
  on any clock \<open>now\<close> of the world that no request turns back and that a sleep of the
  interval advances by at least \<open>d\<close>, the turn of row \<open>k\<close> begins (where the loop over
  the first \<open>k\<close> rows ends) at least \<open>d\<close> before the turn of the next row may begin
  (where the loop over the first \<open>k + 1\<close> rows ends).  The interval is 30 when the
  command line gives none.
\<close>

theorem main_loop_sleeps_between_rows:
  fixes now :: "'w \<Rightarrow> 't::ordered_ab_semigroup_add"
  assumes "main_loop rt iv w rows = (res, evs, w')"
  shows "(\<exists>turns rest.
           evs = concat turns @ rest
         \<and> list_all2 (row_step rt iv) (take (length turns) rows) turns
         \<and> (case res of
              Inr rows' \<Rightarrow> length turns = length rows \<and> rest = []
            | Inl e \<Rightarrow> length turns < length rows \<and> rest \<noteq> []
                \<and> hd rest = processing_log rt (rows ! length turns)
                \<and> sleep_free (butlast (tl rest))))
       \<and> ((\<forall>w0 url params. now w0 \<le> now (snd (session_get rt w0 url params)))
          \<and> (\<forall>w0 w1. time_sleep rt w0 iv = (Inr (), w1) \<longrightarrow> now w0 + d \<le> now w1)
          \<longrightarrow> (\<forall>k ys. k < length rows
                       \<and> fst (main_loop rt iv w (take (Suc k) rows)) = Inr ys
                \<longrightarrow> now (snd (snd (main_loop rt iv w (take k rows)))) + d
                      \<le> now (snd (snd (main_loop rt iv w (take (Suc k) rows))))))"
  using main_loop_turns [OF assms] main_loop_turn_time [of now rt iv d _ rows w]
  by blast

lemma canned_add_one_candidate:
  assumes "\<not> dict_contains row ''city_council_district''" and "dj \<noteq> gj"
  shows "add_city_council_district (canned_runtime gj one_candidate dj (features_of (d # ds))) w row =
     (Inr (),
      dict_set (dict_set row ''geocoded_address'' (PStr ''301 W 2ND ST''))
        ''city_council_district'' (PInt d),
      [HttpGet geocode_url (geocode_params
         (assemble_address (canned_runtime gj one_candidate dj (features_of (d # ds))) row)),
       Log INFO ''Requesting council district for 301 W 2ND ST'',
       HttpGet district_url (district_params (canned_runtime gj one_candidate dj (features_of (d # ds)))
         (Location (PInt 3112000) (PInt 10070000))),
       district_log (canned_runtime gj one_candidate dj (features_of (d # ds)))
         (dict_set (dict_set row ''geocoded_address'' (PStr ''301 W 2ND ST''))
            ''city_council_district'' (PInt d))],
      Suc (Suc w))"
  using assms
  by (simp add: add_city_council_district_def Let_def canned_geocode_address payload_one_candidate
      canned_get_council_district payload_features_of py_str_def)

theorem main_loop_sleeps_between_rows_witness:
  "interval_arg None = (PInt 30 :: unit pyval)
   \<and> main_loop (canned_runtime ''{candidates:[c]}'' one_candidate ''{features:[7]}'' (features_of [7]))
       (interval_arg None) 0
       [[(''address1'', PStr ''1 Main St''), (''city_council_district'', PStr ''9'')],
        [(''address1'', PStr ''301 W 2nd St'')]]
     = (Inr [[(''address1'', PStr ''1 Main St''), (''city_council_district'', PStr ''9'')],
             [(''address1'', PStr ''301 W 2nd St''), (''geocoded_address'', PStr ''301 W 2ND ST''),
              (''city_council_district'', PInt 7)]],
        [Log INFO ''Processing row: name: None None address: 1 Main St , , , , '',
         Sleep (PInt 30),
         Log INFO ''Processing row: name: None None address: 301 W 2nd St , , , , '',
         HttpGet geocode_url (geocode_params ''301 W 2nd St , , , , ''),
         Log INFO ''Requesting council district for 301 W 2ND ST'',
         HttpGet district_url
           (district_params
              (canned_runtime ''{candidates:[c]}'' one_candidate ''{features:[7]}'' (features_of [7]))
              (Location (PInt 3112000) (PInt 10070000))),
         Log INFO ''  City Council District: ...'',
         Sleep (PInt 30)],
        62)
   \<and> (\<exists>turns.
        [Log INFO ''Processing row: name: None None address: 1 Main St , , , , '',
         Sleep (PInt 30),
         Log INFO ''Processing row: name: None None address: 301 W 2nd St , , , , '',
         HttpGet geocode_url (geocode_params ''301 W 2nd St , , , , ''),
         Log INFO ''Requesting council district for 301 W 2ND ST'',
         HttpGet district_url
           (district_params
              (canned_runtime ''{candidates:[c]}'' one_candidate ''{features:[7]}'' (features_of [7]))
              (Location (PInt 3112000) (PInt 10070000))),
         Log INFO ''  City Council District: ...'',
         Sleep (PInt 30)] = concat turns
        \<and> list_all2
            (row_step (canned_runtime ''{candidates:[c]}'' one_candidate ''{features:[7]}'' (features_of [7]))
               (PInt 30))
            [[(''address1'', PStr ''1 Main St''), (''city_council_district'', PStr ''9'')],
             [(''address1'', PStr ''301 W 2nd St'')]]
            turns)
   \<and> snd (snd (main_loop
        (canned_runtime ''{candidates:[c]}'' one_candidate ''{features:[7]}'' (features_of [7]))
        (PInt 30) 0 [])) + 30
       \<le> snd (snd (main_loop
        (canned_runtime ''{candidates:[c]}'' one_candidate ''{features:[7]}'' (features_of [7]))
        (PInt 30) 0 [[(''address1'', PStr ''1 Main St''), (''city_council_district'', PStr ''9'')]]))
   \<and> snd (snd (main_loop
        (canned_runtime ''{candidates:[c]}'' one_candidate ''{features:[7]}'' (features_of [7]))
        (PInt 30) 0 [[(''address1'', PStr ''1 Main St''), (''city_council_district'', PStr ''9'')]])) + 30
       \<le> snd (snd (main_loop
        (canned_runtime ''{candidates:[c]}'' one_candidate ''{features:[7]}'' (features_of [7]))
        (PInt 30) 0
        [[(''address1'', PStr ''1 Main St''), (''city_council_district'', PStr ''9'')],
         [(''address1'', PStr ''301 W 2nd St'')]]))"
proof -
  let ?rt = "canned_runtime ''{candidates:[c]}'' one_candidate ''{features:[7]}'' (features_of [7])"
  let ?row1 = "[(''address1'', PStr ''1 Main St''), (''city_council_district'', PStr ''9'' :: unit pyval)]"
  let ?row2 = "[(''address1'', PStr ''301 W 2nd St'' :: unit pyval)]"
  let ?rows = "[?row1, ?row2]"
  let ?evs = "[Log INFO ''Processing row: name: None None address: 1 Main St , , , , '',
         Sleep (PInt 30),
         Log INFO ''Processing row: name: None None address: 301 W 2nd St , , , , '',
         HttpGet geocode_url (geocode_params ''301 W 2nd St , , , , ''),
         Log INFO ''Requesting council district for 301 W 2ND ST'',
         HttpGet district_url (district_params ?rt (Location (PInt 3112000) (PInt 10070000))),
         Log INFO ''  City Council District: ...'',
         Sleep (PInt 30)]"
  have iv: "interval_arg None = (PInt 30 :: unit pyval)"
    by (simp add: interval_arg_def)
  have skip: "add_city_council_district ?rt 0 ?row1 = (Inr (), ?row1, [], 0)"
    by (simp add: add_city_council_district_def dict_contains_def)
  have aug: "add_city_council_district ?rt 30 ?row2
    = (Inr (),
       [(''address1'', PStr ''301 W 2nd St''), (''geocoded_address'', PStr ''301 W 2ND ST''),
        (''city_council_district'', PInt 7)],
       [HttpGet geocode_url (geocode_params ''301 W 2nd St , , , , ''),
        Log INFO ''Requesting council district for 301 W 2ND ST'',
        HttpGet district_url (district_params ?rt (Location (PInt 3112000) (PInt 10070000))),
        Log INFO ''  City Council District: ...''],
       32)"
    using canned_add_one_candidate
      [of ?row2 "''{features:[7]}''" "''{candidates:[c]}''" 7 "[]" 30]
    by (simp add: dict_contains_def dict_set_def assemble_address_def dict_get_def py_str_def
        district_log_def canned_runtime_def)
  have run1: "main_loop ?rt (PInt 30) 0 [?row1] =
      (Inr [?row1],
       [Log INFO ''Processing row: name: None None address: 1 Main St , , , , '', Sleep (PInt 30)],
       30)"
    by (simp add: skip canned_sleep)
      (simp add: processing_log_def assemble_address_def dict_get_def py_str_def canned_runtime_def)
  have run: "main_loop ?rt (PInt 30) 0 ?rows =
      (Inr [?row1,
            [(''address1'', PStr ''301 W 2nd St''), (''geocoded_address'', PStr ''301 W 2ND ST''),
             (''city_council_district'', PInt 7)]], ?evs, 62)"
    by (simp add: skip aug canned_sleep)
      (simp add: processing_log_def assemble_address_def dict_get_def py_str_def canned_runtime_def)
  have mono: "\<forall>w0 url params. w0 \<le> snd (session_get ?rt w0 url params)"
    by (simp add: canned_runtime_def)
  have slp: "\<forall>w0 w1. time_sleep ?rt w0 (PInt 30) = (Inr (), w1) \<longrightarrow> w0 + 30 \<le> w1"
    by (simp add: canned_sleep)
  note inst = main_loop_sleeps_between_rows [OF run, of "\<lambda>w. w" 30]
  from inst have "\<exists>turns. ?evs = concat turns \<and> list_all2 (row_step ?rt (PInt 30)) ?rows turns"
    by auto
  moreover from inst mono slp
  have t: "\<forall>k ys. k < length ?rows \<and> fst (main_loop ?rt (PInt 30) 0 (take (Suc k) ?rows)) = Inr ys
         \<longrightarrow> snd (snd (main_loop ?rt (PInt 30) 0 (take k ?rows))) + 30
               \<le> snd (snd (main_loop ?rt (PInt 30) 0 (take (Suc k) ?rows)))"
    by blast
  have "snd (snd (main_loop ?rt (PInt 30) 0 [])) + 30 \<le> snd (snd (main_loop ?rt (PInt 30) 0 [?row1]))"
    using t [rule_format, of 0 "[?row1]"] run1 by simp
  moreover
  have "snd (snd (main_loop ?rt (PInt 30) 0 [?row1])) + 30 \<le> snd (snd (main_loop ?rt (PInt 30) 0 ?rows))"
    using t [rule_format, of 1] run by simp
  ultimately show ?thesis using iv run by simp
qed

subsection \<open>What is written\<close>

lemma main_loop_rows:
  "main_loop rt iv w rows = (Inr rows', evs, w') \<Longrightarrow>
   list_all2 (\<lambda>r r'. \<exists>w0 aevs w1. add_city_council_district rt w0 r = (Inr (), r', aevs, w1))
     rows rows'"
proof (induction rows arbitrary: w rows' evs w')
  case Nil
  then show ?case by simp
next
  case (Cons row rows)
  obtain r row1 aevs w1 where a: "add_city_council_district rt w row = (r, row1, aevs, w1)"
    by (metis prod_cases4)
  obtain sr w2 where s: "time_sleep rt w1 iv = (sr, w2)" by (metis surj_pair)
  obtain res2 evs2 w3 where l: "main_loop rt iv w2 rows = (res2, evs2, w3)"
    by (metis prod_cases3)
  from Cons.prems a s l obtain rest' where
    "r = Inr ()" and "res2 = Inr rest'" and "rows' = row1 # rest'"
    by (cases r; cases sr; cases res2) auto
  with Cons.IH [of w2 rest' evs2 w3] a l show ?case by auto
qed

lemma add_ok_keys:
  assumes "add_city_council_district rt w row = (Inr (), row', evs, w')"
  shows "dict_keys row' =
           (if ''city_council_district'' \<in> set (dict_keys row) then dict_keys row
            else if ''geocoded_address'' \<in> set (dict_keys row)
              then dict_keys row @ [''city_council_district'']
            else dict_keys row @ [''geocoded_address'', ''city_council_district''])"
proof (cases "dict_contains row ''city_council_district''")
  case True
  with add_cases [OF assms] show ?thesis by (simp add: dict_contains_keys)
next
  case False
  with add_cases [OF assms] obtain a d where
    "row' = dict_set (dict_set row ''geocoded_address'' a) ''city_council_district'' d"
    by auto
  with False show ?thesis by (simp add: dict_keys_dict_set dict_contains_keys)
qed

lemma add_ok_value:
  assumes "add_city_council_district rt w row = (Inr (), row', evs, w')"
    and "map_of row k = Some v"
    and "k \<noteq> ''geocoded_address'' \<or> dict_contains row ''city_council_district''"
  shows "map_of row' k = Some v"
proof (cases "dict_contains row ''city_council_district''")
  case True
  with add_cases [OF assms(1)] assms(2) show ?thesis by simp
next
  case False
  with add_cases [OF assms(1)] obtain a d where
    r: "row' = dict_set (dict_set row ''geocoded_address'' a) ''city_council_district'' d"
    by auto
  from False assms(2) have "k \<noteq> ''city_council_district''"
    by (auto simp: dict_contains_def)
  with False assms(2,3) show ?thesis by (simp add: r map_of_dict_set)
qed

lemma writerows_rows:
  "writerows fieldnames rs = Inr out \<Longrightarrow>
   list_all2 (\<lambda>r cells. dict_to_list fieldnames r = Inr cells) rs out"
  by (induction rs arbitrary: out) (auto split: sum.splits)

lemma dict_to_list_length:
  assumes "dict_to_list fieldnames r = Inr cells"
  shows "length cells = length fieldnames"
proof -
  from assms have "cells = map (\<lambda>k. dict_get r k (PStr [])) fieldnames"
    by (auto simp: dict_to_list_def split: if_splits)
  then show ?thesis by simp
qed

lemma dict_to_list_cell:
  assumes "dict_to_list fieldnames r = Inr cells" and "map_of r k = Some v"
  shows "map_of (zip fieldnames cells) k = Some v"
proof -
  from assms(1) have keys: "set (dict_keys r) \<subseteq> set fieldnames"
    and cells: "cells = map (\<lambda>k. dict_get r k (PStr '''')) fieldnames"
    by (auto simp: dict_to_list_def list_ex_iff split: if_splits)
  from assms(2) have "k \<in> set (dict_keys r)"
    by (metis dict_contains_def dict_contains_keys option.distinct(1))
  with keys have "k \<in> set fieldnames" by blast
  then show "map_of (zip fieldnames cells) k = Some v"
    using assms(2) by (simp add: cells map_of_zip_map dict_get_def)
qed

text \<open>
  C2, as the code has it.  When \<open>main\<close> writes its output, the input was not empty, the
  output has one row of cells per input row, in the input's order: row \<open>i\<close> of the output
  has a cell for every column of the header and carries, under each column that row \<open>i\<close>
  of the input had, the value it had there (a \<open>geocoded_address\<close> that was overwritten
  apart).  The header is the first row's columns in their order, followed by
  \<open>geocoded_address\<close> and \<open>city_council_district\<close> when the first row had neither, by
  \<open>city_council_district\<close> alone when it had \<open>geocoded_address\<close>, and by nothing when it
  already had \<open>city_council_district\<close>: a row the guard skips gets no new column.
\<close>

theorem main_output_shape:
  assumes "main rt w args data = (Inr (header, out), evs, w')"
  shows "data \<noteq> []
       \<and> length out = length data
       \<and> header =
           (if ''city_council_district'' \<in> set (dict_keys (hd data)) then dict_keys (hd data)
            else if ''geocoded_address'' \<in> set (dict_keys (hd data))
              then dict_keys (hd data) @ [''city_council_district'']
            else dict_keys (hd data) @ [''geocoded_address'', ''city_council_district''])
       \<and> (\<forall>i < length data.
            length (out ! i) = length header
          \<and> (\<forall>k v. map_of (data ! i) k = Some v
                  \<and> (k \<noteq> ''geocoded_address'' \<or> dict_contains (data ! i) ''city_council_district'')
               \<longrightarrow> map_of (zip header (out ! i)) k = Some v))"
proof -
  obtain ir ievs w1 where i: "AustinDataService_init rt w = (ir, ievs, w1)"
    by (metis prod_cases3)
  obtain lr levs w2 where l: "main_loop rt (args_interval args) w1 data = (lr, levs, w2)"
    by (metis prod_cases3)
  from assms i l obtain data' where lr: "lr = Inr data'"
    and wr: "write_output data' = Inr (header, out)"
    by (cases ir; cases lr) (auto simp: main_def split: sum.splits)
  from wr obtain row0' rest' where d': "data' = row0' # rest'"
    and hdr: "header = dict_keys row0'" and rows: "writerows header data' = Inr out"
    by (cases data') (auto simp: write_output_def split: sum.splits)
  have rel: "list_all2 (\<lambda>r r'. \<exists>w0 aevs w1. add_city_council_district rt w0 r = (Inr (), r', aevs, w1))
               data data'"
    using l lr by (auto intro: main_loop_rows)
  have cells: "list_all2 (\<lambda>r cells. dict_to_list header r = Inr cells) data' out"
    using writerows_rows [OF rows] .
  have len: "length data' = length data" "length out = length data'"
    using rel cells by (simp_all add: list_all2_lengthD)
  have ne: "data \<noteq> []" using len d' by auto
  then obtain row0 rest where d: "data = row0 # rest" by (cases data) auto
  from rel d d' obtain w0 aevs w1' where
    "add_city_council_district rt w0 row0 = (Inr (), row0', aevs, w1')"
    by auto
  from add_ok_keys [OF this] hdr d
  have h: "header =
           (if ''city_council_district'' \<in> set (dict_keys (hd data)) then dict_keys (hd data)
            else if ''geocoded_address'' \<in> set (dict_keys (hd data))
              then dict_keys (hd data) @ [''city_council_district'']
            else dict_keys (hd data) @ [''geocoded_address'', ''city_council_district''])"
    by simp
  have each: "length (out ! i) = length header
          \<and> (\<forall>k v. map_of (data ! i) k = Some v
                  \<and> (k \<noteq> ''geocoded_address'' \<or> dict_contains (data ! i) ''city_council_district'')
               \<longrightarrow> map_of (zip header (out ! i)) k = Some v)"
    if "i < length data" for i
  proof -
    from that rel obtain w0 aevs w1' where
      a: "add_city_council_district rt w0 (data ! i) = (Inr (), data' ! i, aevs, w1')"
      by (auto simp: list_all2_conv_all_nth)
    from that cells len have c: "dict_to_list header (data' ! i) = Inr (out ! i)"
      by (simp add: list_all2_conv_all_nth)
    have "length (out ! i) = length header"
      using c by (rule dict_to_list_length)
    moreover have "map_of (zip header (out ! i)) k = Some v"
      if "map_of (data ! i) k = Some v"
        and "k \<noteq> ''geocoded_address'' \<or> dict_contains (data ! i) ''city_council_district''"
      for k v
      using dict_to_list_cell [OF c add_ok_value [OF a that]] .
    ultimately show ?thesis by blast
  qed
  from ne len h each show ?thesis by simp
qed

lemma canned_init:
  "AustinDataService_init (canned_runtime gj gv dj dv) w
     = (Inr (), [HttpGet government_url []], Suc w)"
  by (simp add: AustinDataService_init_def canned_runtime_def)

theorem main_output_shape_witness:
  "fst (main (canned_runtime ''{candidates:[c]}'' one_candidate ''{features:[7]}'' (features_of [7])) 0
      \<lparr>args_verbose = False, args_input = ''members.csv'', args_output = ''augmented.csv'',
        args_interval = PInt 30\<rparr>
      [[(''first_name'', PStr ''Ann''), (''address1'', PStr ''301 W 2nd St'')],
       [(''first_name'', PStr ''Bob''), (''address1'', PStr ''1 Main St'')]])
   = Inr ([''first_name'', ''address1'', ''geocoded_address'', ''city_council_district''],
          [[PStr ''Ann'', PStr ''301 W 2nd St'', PStr ''301 W 2ND ST'', PInt 7],
           [PStr ''Bob'', PStr ''1 Main St'', PStr ''301 W 2ND ST'', PInt 7]])
   \<and> length [[PStr ''Ann'', PStr ''301 W 2nd St'', PStr ''301 W 2ND ST'', PInt 7],
             [PStr ''Bob'', PStr ''1 Main St'', PStr ''301 W 2ND ST'', PInt (7::int) :: unit pyval]]
       = length [[(''first_name'', PStr ''Ann''), (''address1'', PStr ''301 W 2nd St'')],
                 [(''first_name'', PStr ''Bob''), (''address1'', PStr ''1 Main St'' :: unit pyval)]]
   \<and> [''first_name'', ''address1'', ''geocoded_address'', ''city_council_district'']
       = dict_keys [(''first_name'', PStr ''Ann''), (''address1'', PStr ''301 W 2nd St'' :: unit pyval)]
           @ [''geocoded_address'', ''city_council_district'']"
proof -
  let ?rt = "canned_runtime ''{candidates:[c]}'' one_candidate ''{features:[7]}'' (features_of [7])"
  let ?args = "\<lparr>args_verbose = False, args_input = ''members.csv'', args_output = ''augmented.csv'',
        args_interval = PInt 30 :: unit pyval\<rparr>"
  let ?data = "[[(''first_name'', PStr ''Ann''), (''address1'', PStr ''301 W 2nd St'')],
       [(''first_name'', PStr ''Bob''), (''address1'', PStr ''1 Main St'' :: unit pyval)]]"
  let ?header = "[''first_name'', ''address1'', ''geocoded_address'', ''city_council_district'']"
  let ?out = "[[PStr ''Ann'', PStr ''301 W 2nd St'', PStr ''301 W 2ND ST'', PInt 7],
           [PStr ''Bob'', PStr ''1 Main St'', PStr ''301 W 2ND ST'', PInt (7::int) :: unit pyval]]"
  have run: "fst (main ?rt 0 ?args ?data) = Inr (?header, ?out)"
    by (simp add: main_def canned_init canned_add_one_candidate canned_sleep dict_contains_def
        write_output_def dict_to_list_def dict_keys_def dict_set_def dict_get_def)
  then have "main ?rt 0 ?args ?data =
      (Inr (?header, ?out), fst (snd (main ?rt 0 ?args ?data)), snd (snd (main ?rt 0 ?args ?data)))"
    by (metis prod.collapse)
  from main_output_shape [OF this] run show ?thesis
    by (simp add: dict_keys_def)
qed

text \<open>
  C2 as stated fails: on an input whose column \<open>city_council_district\<close> is already
  there the guard skips the rows, and what is written has the input's columns and no
  \<open>geocoded_address\<close> column, not the input's columns followed by the two new ones.
\<close>

theorem skipped_input_header_counterexample:
  "fst (main (canned_runtime ''{candidates:[c]}'' one_candidate ''{features:[7]}'' (features_of [7])) 0
      \<lparr>args_verbose = False, args_input = ''members.csv'', args_output = ''augmented.csv'',
        args_interval = PInt 30\<rparr>
      [[(''address1'', PStr ''301 W 2nd St''), (''city_council_district'', PStr ''9'')]])
   = Inr ([''address1'', ''city_council_district''], [[PStr ''301 W 2nd St'', PStr ''9'']])
   \<and> [''address1'', ''city_council_district'']
       \<noteq> dict_keys [(''address1'', PStr ''301 W 2nd St'' :: unit pyval),
                     (''city_council_district'', PStr ''9'')]
           @ [''geocoded_address'', ''city_council_district'']"
  by (simp add: main_def canned_init canned_sleep add_city_council_district_def dict_contains_def
      write_output_def dict_to_list_def dict_keys_def dict_get_def)

end
